theory Spec2Isabelle
  imports Main
begin

section \<open>Merge editor input models\<close>

text \<open>
  A shallow embedding of \<^verbatim>\<open>mergeEditorInputModel.ts\<close>: the temp-file and workspace
  variants of the merge editor's input model and the two factories that build them.
  Objects are held in heaps indexed by object identity (a natural number), so that
  \<^verbatim>\<open>m === this\<close> is equality of identities and two references to one object
  see the same fields. An asynchronous method is run to completion, its awaits in
  program order; a rejected promise is the left injection of a sum, and the world
  returned with it is the one the method leaves behind.
\<close>

subsection \<open>Values exchanged with the host\<close>

record uri =
  scheme :: string
  path :: string

datatype error = BugIndicatingError | Rejected string

datatype ConfirmResult = SAVE | DONT_SAVE | CANCEL

text \<open>
  Modelled from the spec: the host's text document (\<^verbatim>\<open>ITextModel\<close>, not part of
  the sources), reduced to what the input models read and write: its identifier, its
  language, its content and its version markers. Every content change moves the version
  id forward; an edit gives the document a new alternative version id, an undo gives it
  back an earlier one.
\<close>

record text_model =
  model_uri :: uri
  languageId :: string
  content :: string
  versionId :: nat
  alternativeVersionId :: nat

definition setValue :: "string \<Rightarrow> text_model \<Rightarrow> text_model" where
  "setValue v m =
     m\<lparr>content := v, versionId := versionId m + 1, alternativeVersionId := versionId m + 1\<rparr>"

text \<open>
  Dialogs. The localized strings are kept as their \<^verbatim>\<open>localize\<close> keys; the
  arguments substituted into a message ride along.
\<close>

datatype message = MessageN nat | Message1 uri | SaveTempFile

datatype detail_text = DetailNConflicts | Detail1Conflicts | DetailN | Detail1

datatype action = SaveWithConflict | Save | Discard | Cancel | AcceptMerge

record dialog =
  message :: message
  actions :: "action list"
  cancelId :: nat
  detail :: "detail_text option"

record editor_identifier =
  groupId :: nat
  typeId :: string

text \<open>
  The trace of calls made to the injected services, oldest first. A save is recorded with
  the content the document holds when the call is made.
\<close>

datatype call =
    DialogShow dialog
  | TextFileSave uri string
  | TextFileRevert uri
  | CloseEditors "editor_identifier list"

text \<open>
  Modelled from the spec: the injected services (dialog service, text-file service and
  editor service are not part of the sources). The dialog service answers a dialog with
  the index of the chosen action; a save or a revert resolves (\<open>None\<close>) or rejects with
  an error; the editor service lists the open editors of a resource and takes requests
  to close editors. What the text-file service does with a document (the disk, its own
  dirty tracking) is its own state: here a call is recorded in the trace, and the
  service is taken not to edit the text models the sessions hold.
\<close>

record services =
  dialogService_show :: "dialog \<Rightarrow> nat"
  textFileService_save :: "uri \<Rightarrow> error option"
  textFileService_revert :: "uri \<Rightarrow> error option"
  editorService_findEditors :: "uri \<Rightarrow> editor_identifier list"

subsection \<open>Handles and disposal\<close>

text \<open>
  Modelled from the spec: a document handle is a reference-counted reference to a
  resolved text model; the disposal group registers disposables and releases all of
  them when it is disposed. The world keeps the handles that are acquired and those
  that have been released; disposing anything but a handle leaves no trace in it.
\<close>

record reference =
  ref_uri :: uri
  ref_object :: nat

datatype disposable =
    ReferenceD reference
  | TextModelD nat
  | MergeEditorModelD
  | ListenerD

record DisposableStore =
  toDispose :: "disposable list"
  isDisposed :: bool

definition new_DisposableStore :: DisposableStore where
  "new_DisposableStore = \<lparr>toDispose = [], isDisposed = False\<rparr>"

definition store_add :: "disposable \<Rightarrow> DisposableStore \<Rightarrow> DisposableStore" where
  "store_add d st = (if isDisposed st then st else st\<lparr>toDispose := toDispose st @ [d]\<rparr>)"

subsection \<open>The merge model and the temp-file session\<close>

text \<open>
  Modelled from the spec: the merge computation context (\<^verbatim>\<open>MergeEditorModel\<close>, not
  part of the sources): the result text model it edits, its unhandled-conflicts flag
  and the text \<^verbatim>\<open>getResultValueWithConflictMarkers\<close> resolves to at present.
\<close>

record InputData =
  textModel :: nat
  title :: "string option"
  description :: "string option"
  detail_of :: "string option"

record MergeEditorModel =
  base :: nat
  input1 :: InputData
  input2 :: InputData
  resultTextModel :: nat
  hasUnhandledConflicts :: bool
  resultValueWithConflictMarkers :: string

record TempFileMergeEditorInputModel =
  model :: MergeEditorModel
  disposable_of :: DisposableStore
  result :: nat
  resultUri :: uri
  savedAltVersionId :: nat
  finished :: bool

record world =
  textModels :: "nat \<Rightarrow> text_model"
  inputModels :: "nat \<Rightarrow> TempFileMergeEditorInputModel"
  calls :: "call list"
  nextTextModel :: nat
  references :: "reference list"
  released :: "reference list"
  unexpectedErrors :: "error list"

definition recordCall :: "call \<Rightarrow> world \<Rightarrow> world" where
  "recordCall c w = w\<lparr>calls := calls w @ [c]\<rparr>"

text \<open>The dialogs a trace has shown, oldest first.\<close>

fun dialogs_of :: "call list \<Rightarrow> dialog list" where
  "dialogs_of [] = []"
| "dialogs_of (DialogShow d # cs) = d # dialogs_of cs"
| "dialogs_of (c # cs) = dialogs_of cs"

definition updateInputModel ::
  "nat \<Rightarrow> (TempFileMergeEditorInputModel \<Rightarrow> TempFileMergeEditorInputModel) \<Rightarrow> world \<Rightarrow> world" where
  "updateInputModel this f w = w\<lparr>inputModels := (inputModels w)(this := f (inputModels w this))\<rparr>"

text \<open>The scratch document of a session: the result text model of its merge model.\<close>

definition scratch :: "world \<Rightarrow> nat \<Rightarrow> text_model" where
  "scratch w this = textModels w (resultTextModel (model (inputModels w this)))"

text \<open>
  The constructor: the save point is the scratch document's alternative version id at
  construction, and the session is not finished.
\<close>

definition new_TempFileMergeEditorInputModel ::
  "world \<Rightarrow> MergeEditorModel \<Rightarrow> DisposableStore \<Rightarrow> nat \<Rightarrow> uri \<Rightarrow> TempFileMergeEditorInputModel" where
  "new_TempFileMergeEditorInputModel w m st r u =
     \<lparr>model = m, disposable_of = st, result = r, resultUri = u,
      savedAltVersionId = alternativeVersionId (textModels w (resultTextModel m)),
      finished = False\<rparr>"

text \<open>
  \<^verbatim>\<open>isDirty\<close> is derived from two observables: the saved marker and the scratch
  document's alternative version id. The second is refreshed from the document at each
  of its content-change events, and read from the document when nobody observes it;
  either way its value is the document's current alternative version id, which is what
  the definition reads.
\<close>

definition isDirty :: "world \<Rightarrow> nat \<Rightarrow> bool" where
  "isDirty w this =
     (alternativeVersionId (scratch w this) \<noteq> savedAltVersionId (inputModels w this))"

definition accept :: "services \<Rightarrow> nat \<Rightarrow> world \<Rightarrow> (error + unit) \<times> world" where
  "accept sv this w =
     (let s = inputModels w this;
          v = resultValueWithConflictMarkers (model s);
          w1 = w\<lparr>textModels := (textModels w)(result s := setValue v (textModels w (result s)))\<rparr>;
          w2 = updateInputModel this
                 (\<lambda>s. s\<lparr>savedAltVersionId := alternativeVersionId (scratch w1 this)\<rparr>) w1;
          u = model_uri (textModels w2 (result s));
          w3 = recordCall (TextFileSave u (content (textModels w2 (result s)))) w2
      in case textFileService_save sv u of
           Some e \<Rightarrow> (Inl e, w3)
         | None \<Rightarrow> (Inr (), updateInputModel this (\<lambda>s. s\<lparr>finished := True\<rparr>) w3))"

definition discard :: "services \<Rightarrow> nat \<Rightarrow> world \<Rightarrow> (error + unit) \<times> world" where
  "discard sv this w =
     (let u = model_uri (scratch w this);
          w1 = recordCall (TextFileRevert u) w
      in case textFileService_revert sv u of
           Some e \<Rightarrow> (Inl e, w1)
         | None \<Rightarrow>
             (Inr (),
              updateInputModel this
                (\<lambda>s. s\<lparr>savedAltVersionId := alternativeVersionId (scratch w1 this),
                        finished := True\<rparr>) w1))"

definition shouldConfirmClose :: "TempFileMergeEditorInputModel \<Rightarrow> bool" where
  "shouldConfirmClose s = True"

text \<open>
  \<^verbatim>\<open>Promise.all\<close> over a batch of sessions: every call is made and runs to its
  end, in list order, whether or not another one rejects; the batch rejects when one of
  them rejects. Which of several rejections surfaces is a matter of timing, fixed here
  to list order.
\<close>

fun Promise_all ::
  "(nat \<Rightarrow> world \<Rightarrow> (error + unit) \<times> world) \<Rightarrow> nat list \<Rightarrow> world \<Rightarrow> (error + unit) \<times> world" where
  "Promise_all f [] w = (Inr (), w)"
| "Promise_all f (m # ms) w =
     (case f m w of
        (r, w1) \<Rightarrow>
          (case Promise_all f ms w1 of
             (rs, w2) \<Rightarrow> ((case r of Inl e \<Rightarrow> Inl e | Inr _ \<Rightarrow> rs), w2)))"

definition confirmClose_dialog :: "world \<Rightarrow> nat list \<Rightarrow> dialog" where
  "confirmClose_dialog w inputs =
     (let isMany = (length inputs > 1);
          hasUnhandledConflicts =
            list_ex (\<lambda>m. hasUnhandledConflicts (model (inputModels w m))) inputs
      in \<lparr>message =
            (if isMany then MessageN (length inputs)
             else Message1 (model_uri (scratch w (hd inputs)))),
          actions =
            [if hasUnhandledConflicts then SaveWithConflict else Save, Discard, Cancel],
          cancelId = 2,
          detail =
            Some (if hasUnhandledConflicts
                  then (if isMany then DetailNConflicts else Detail1Conflicts)
                  else (if isMany then DetailN else Detail1))\<rparr>)"

text \<open>
  Modelled from the spec: the assertion helper (\<^verbatim>\<open>assertFn\<close>, not part of the
  sources). The spec gives \<^verbatim>\<open>confirmClose\<close> no failure of its own, and the helper
  does not throw: when its condition is false it reports a bug-indicating error to the
  host's handler of unexpected errors and returns, so the caller goes on. The world
  keeps the errors reported this way.
\<close>

definition assertFn :: "bool \<Rightarrow> world \<Rightarrow> world" where
  "assertFn c w =
     (if c then w else w\<lparr>unexpectedErrors := unexpectedErrors w @ [BugIndicatingError]\<rparr>)"

text \<open>
  \<^verbatim>\<open>confirmClose\<close> first asserts that the receiver is one of the sessions, and goes
  on whether or not it is: nothing else in the method reads the receiver. With no dirty
  session the choice is 1, the index of the action Don't Save, and no dialog is shown.
\<close>

definition confirmClose ::
  "services \<Rightarrow> nat \<Rightarrow> nat list \<Rightarrow> world \<Rightarrow> (error + ConfirmResult) \<times> world" where
  "confirmClose sv this inputs w =
     (let w0 = assertFn (list_ex (\<lambda>m. m = this) inputs) w;
          someDirty = list_ex (isDirty w0) inputs;
          d = confirmClose_dialog w0 inputs;
          choice = (if someDirty then dialogService_show sv d else 1);
          w1 = (if someDirty then recordCall (DialogShow d) w0 else w0)
      in if choice = 2 then (Inr CANCEL, w1)
         else if choice = 0 then
           (case Promise_all (accept sv) inputs w1 of
              (Inl e, w2) \<Rightarrow> (Inl e, w2)
            | (Inr _, w2) \<Rightarrow> (Inr SAVE, w2))
         else
           (case Promise_all (discard sv) inputs w1 of
              (Inl e, w2) \<Rightarrow> (Inl e, w2)
            | (Inr _, w2) \<Rightarrow> (Inr DONT_SAVE, w2)))"

definition save_dialog :: dialog where
  "save_dialog =
     \<lparr>message = SaveTempFile, actions = [AcceptMerge, Cancel], cancelId = 1, detail = None\<rparr>"

text \<open>
  \<^verbatim>\<open>save\<close> starts a detached task and resolves at once; nothing the task does can
  reject \<^verbatim>\<open>save\<close>. The world returned is the one the task leaves behind.
\<close>

definition save :: "services \<Rightarrow> nat \<Rightarrow> world \<Rightarrow> world" where
  "save sv this w =
     (if finished (inputModels w this) then w
      else
        let w1 = recordCall (DialogShow save_dialog) w
        in if dialogService_show sv save_dialog = 0 then
             (case accept sv this w1 of
                (Inl e, w2) \<Rightarrow> w2
              | (Inr _, w2) \<Rightarrow>
                  let editors =
                        filter (\<lambda>e. typeId e = ''mergeEditor.Input'')
                          (editorService_findEditors sv (resultUri (inputModels w2 this)))
                  in recordCall (CloseEditors editors) w2)
           else w1)"

definition revert :: "services \<Rightarrow> nat \<Rightarrow> world \<Rightarrow> world" where
  "revert sv this w = w"

subsection \<open>The workspace session\<close>

record text_file_model =
  resource :: uri
  file_dirty :: bool

record WorkspaceMergeEditorInputModel =
  ws_model :: MergeEditorModel
  disposableStore :: DisposableStore
  resultTextFileModel :: text_file_model

definition ws_shouldConfirmClose :: "WorkspaceMergeEditorInputModel \<Rightarrow> bool" where
  "ws_shouldConfirmClose s = False"

definition ws_confirmClose :: "WorkspaceMergeEditorInputModel \<Rightarrow> 'a list \<Rightarrow> ConfirmResult" where
  "ws_confirmClose s inputs = SAVE"

text \<open>The interface \<^verbatim>\<open>IMergeEditorInputModel\<close> with its two implementations.\<close>

datatype IMergeEditorInputModel =
    TempFile TempFileMergeEditorInputModel
  | Workspace WorkspaceMergeEditorInputModel

fun IMergeEditorInputModel_shouldConfirmClose :: "IMergeEditorInputModel \<Rightarrow> bool" where
  "IMergeEditorInputModel_shouldConfirmClose (TempFile s) = shouldConfirmClose s"
| "IMergeEditorInputModel_shouldConfirmClose (Workspace s) = ws_shouldConfirmClose s"

subsection \<open>Disposing\<close>

fun dispose_disposable :: "disposable \<Rightarrow> world \<Rightarrow> world" where
  "dispose_disposable (ReferenceD r) w =
     w\<lparr>references := remove1 r (references w), released := released w @ [r]\<rparr>"
| "dispose_disposable d w = w"

definition store_dispose :: "DisposableStore \<Rightarrow> world \<Rightarrow> DisposableStore \<times> world" where
  "store_dispose st w =
     (if isDisposed st then (st, w)
      else (\<lparr>toDispose = [], isDisposed = True\<rparr>, fold dispose_disposable (toDispose st) w))"

definition dispose :: "nat \<Rightarrow> world \<Rightarrow> world" where
  "dispose this w =
     (case store_dispose (disposable_of (inputModels w this)) w of
        (st, w1) \<Rightarrow> updateInputModel this (\<lambda>s. s\<lparr>disposable_of := st\<rparr>) w1)"

subsection \<open>The factories\<close>

record MergeEditorInputData =
  data_uri :: uri
  data_title :: "string option"
  data_detail :: "string option"
  data_description :: "string option"

record MergeEditorArgs =
  args_base :: uri
  args_input1 :: MergeEditorInputData
  args_input2 :: MergeEditorInputData
  args_result :: uri

text \<open>
  Modelled from the spec: what the host answers during one construction (the document
  resolution service, the registry of tracked files and the merge computation context
  are not part of the sources). A resolution rejects or resolves to a text model; the
  registry lists the tracked file records at the call; \<open>files_onDidCreate\<close> lists the
  records announced while the construction is suspended, in order; the last two fields
  are what the freshly built merge model reports.
\<close>

record host =
  createModelReference :: "uri \<Rightarrow> error + nat"
  files_models :: "text_file_model list"
  files_onDidCreate :: "text_file_model list"
  merge_hasUnhandledConflicts :: bool
  merge_resultValue :: string

definition resolve :: "host \<Rightarrow> uri \<Rightarrow> world \<Rightarrow> (error + reference) \<times> world" where
  "resolve h u w =
     (case createModelReference h u of
        Inl e \<Rightarrow> (Inl e, w)
      | Inr obj \<Rightarrow>
          (Inr \<lparr>ref_uri = u, ref_object = obj\<rparr>,
           w\<lparr>references := references w @ [\<lparr>ref_uri = u, ref_object = obj\<rparr>]\<rparr>))"

definition toInputData ::
  "host \<Rightarrow> MergeEditorInputData \<Rightarrow> DisposableStore \<Rightarrow> world
     \<Rightarrow> (error + InputData) \<times> DisposableStore \<times> world" where
  "toInputData h d st w =
     (case resolve h (data_uri d) w of
        (Inl e, w1) \<Rightarrow> (Inl e, st, w1)
      | (Inr r, w1) \<Rightarrow>
          (Inr \<lparr>textModel = ref_object r, title = data_title d,
                description = data_description d, detail_of = data_detail d\<rparr>,
           store_add (ReferenceD r) st, w1))"

text \<open>
  \<^verbatim>\<open>Promise.all\<close> over the four resolutions: all four are started, and each one
  that resolves acquires its handle; when one rejects, the construction rejects. Which
  of several rejections surfaces is a matter of timing, fixed here to array order.
\<close>

definition Promise_all4 ::
  "error + 'a \<Rightarrow> error + 'b \<Rightarrow> error + 'c \<Rightarrow> error + 'd \<Rightarrow> error + 'a \<times> 'b \<times> 'c \<times> 'd" where
  "Promise_all4 pa pb pc pd =
     (case pa of Inl e \<Rightarrow> Inl e | Inr a \<Rightarrow>
      (case pb of Inl e \<Rightarrow> Inl e | Inr b \<Rightarrow>
       (case pc of Inl e \<Rightarrow> Inl e | Inr c \<Rightarrow>
        (case pd of Inl e \<Rightarrow> Inl e | Inr d \<Rightarrow> Inr (a, b, c, d)))))"

definition new_MergeEditorModel :: "host \<Rightarrow> nat \<Rightarrow> InputData \<Rightarrow> InputData \<Rightarrow> nat \<Rightarrow> MergeEditorModel" where
  "new_MergeEditorModel h b i1 i2 r =
     \<lparr>base = b, input1 = i1, input2 = i2, resultTextModel = r,
      hasUnhandledConflicts = merge_hasUnhandledConflicts h,
      resultValueWithConflictMarkers = merge_resultValue h\<rparr>"

text \<open>
  The model service creates a new text model; the merge model is built from the
  resolved documents, and the temp-file factory waits for it to be initialized (taken
  to happen) before it builds the session.
\<close>

definition createModel :: "string \<Rightarrow> string \<Rightarrow> uri \<Rightarrow> world \<Rightarrow> nat \<times> world" where
  "createModel v lang u w =
     (nextTextModel w,
      w\<lparr>textModels := (textModels w)(nextTextModel w :=
           \<lparr>model_uri = u, languageId = lang, content = v, versionId = 1,
            alternativeVersionId = 1\<rparr>),
        nextTextModel := nextTextModel w + 1\<rparr>)"

definition TempFile_createInputModel ::
  "host \<Rightarrow> MergeEditorArgs \<Rightarrow> world
     \<Rightarrow> (error + TempFileMergeEditorInputModel) \<times> DisposableStore \<times> world" where
  "TempFile_createInputModel h args w =
     (let store = new_DisposableStore in
      case resolve h (args_base args) w of (pb, w1) \<Rightarrow>
      case resolve h (args_result args) w1 of (pr, w2) \<Rightarrow>
      case toInputData h (args_input1 args) store w2 of (p1, store1, w3) \<Rightarrow>
      case toInputData h (args_input2 args) store1 w3 of (p2, store2, w4) \<Rightarrow>
      (case Promise_all4 pb pr p1 p2 of
         Inl e \<Rightarrow> (Inl e, store2, w4)
       | Inr (b, r, input1Data, input2Data) \<Rightarrow>
           (let store3 = store_add (ReferenceD r) (store_add (ReferenceD b) store2);
                resultModel = textModels w4 (ref_object r);
                tempResultUri = (model_uri resultModel)\<lparr>scheme := ''merge-result''\<rparr>
            in case createModel [] (languageId resultModel) tempResultUri w4 of
                 (temporaryResultModel, w5) \<Rightarrow>
                   (let store4 = store_add (TextModelD temporaryResultModel) store3;
                        m = new_MergeEditorModel h (ref_object b) input1Data input2Data
                              temporaryResultModel;
                        store5 = store_add MergeEditorModelD store4
                    in (Inr (new_TempFileMergeEditorInputModel w5 m store5 (ref_object r)
                               (args_result args)),
                        store5, w5)))))"

text \<open>
  The workspace factory looks for the tracked file record of the result: first in the
  registry, then among the records announced while it awaits the resolutions. The pair
  is (is the \<^verbatim>\<open>onDidCreate\<close> listener still subscribed,
  \<^verbatim>\<open>resultTextFileModel\<close>); a match unsubscribes the listener. Identifiers are
  compared by equality.
\<close>

definition handleDidCreate ::
  "uri \<Rightarrow> text_file_model \<Rightarrow> bool \<times> text_file_model option \<Rightarrow> bool \<times> text_file_model option" where
  "handleDidCreate r m st = (if r = resource m then (False, Some m) else st)"

definition onDidCreate ::
  "uri \<Rightarrow> text_file_model \<Rightarrow> bool \<times> text_file_model option \<Rightarrow> bool \<times> text_file_model option" where
  "onDidCreate r m st = (if fst st then handleDidCreate r m st else st)"

definition Workspace_createInputModel ::
  "host \<Rightarrow> MergeEditorArgs \<Rightarrow> world
     \<Rightarrow> (error + WorkspaceMergeEditorInputModel) \<times> DisposableStore \<times> world" where
  "Workspace_createInputModel h args w =
     (let store = store_add ListenerD new_DisposableStore;
          found0 = fold (handleDidCreate (args_result args)) (files_models h) (True, None)
      in
      case resolve h (args_base args) w of (pb, w1) \<Rightarrow>
      case resolve h (args_result args) w1 of (pr, w2) \<Rightarrow>
      case toInputData h (args_input1 args) store w2 of (p1, store1, w3) \<Rightarrow>
      case toInputData h (args_input2 args) store1 w3 of (p2, store2, w4) \<Rightarrow>
      (let found = fold (onDidCreate (args_result args)) (files_onDidCreate h) found0 in
       case Promise_all4 pb pr p1 p2 of
         Inl e \<Rightarrow> (Inl e, store2, w4)
       | Inr (b, r, input1Data, input2Data) \<Rightarrow>
           (let store3 = store_add (ReferenceD r) (store_add (ReferenceD b) store2);
                m = new_MergeEditorModel h (ref_object b) input1Data input2Data (ref_object r);
                store4 = store_add MergeEditorModelD store3
            in case snd found of
                 None \<Rightarrow> (Inl BugIndicatingError, store4, w4)
               | Some tracked \<Rightarrow>
                   (Inr \<lparr>ws_model = m, disposableStore = store4,
                         resultTextFileModel = tracked\<rparr>,
                    store4, w4))))"

text \<open>
  The handles that resolving these identifiers, in this order, acquires: one for every
  identifier that resolves.
\<close>

definition resolved_handles :: "host \<Rightarrow> uri list \<Rightarrow> reference list" where
  "resolved_handles h us =
     concat (map (\<lambda>u. case createModelReference h u of
                          Inl e \<Rightarrow> []
                        | Inr obj \<Rightarrow> [\<lparr>ref_uri = u, ref_object = obj\<rparr>]) us)"

text \<open>
  The error of the first of these identifiers, in this order, whose resolution rejects;
  \<open>None\<close> when all of them resolve.
\<close>

fun first_rejection :: "host \<Rightarrow> uri list \<Rightarrow> error option" where
  "first_rejection h [] = None"
| "first_rejection h (u # us) =
     (case createModelReference h u of Inl e \<Rightarrow> Some e | Inr _ \<Rightarrow> first_rejection h us)"

text \<open>The four identifiers a construction resolves, in the order of the array it awaits.\<close>

definition resolutions :: "MergeEditorArgs \<Rightarrow> uri list" where
  "resolutions args =
     [args_base args, args_result args, data_uri (args_input1 args),
      data_uri (args_input2 args)]"

subsection \<open>Runs of a world\<close>

text \<open>
  What can happen to a world between two observations: a content change of a text
  model (an edit, an undo or a redo: the new content and the new alternative version
  id), a change of a session's merge state, or a call of a public method of a
  session. Each step comes with the services' behaviour during that step.
\<close>

datatype operation =
    ContentChange nat string nat
  | MergeChange nat bool string
  | CallAccept nat
  | CallSave nat
  | CallRevert nat
  | CallConfirmClose nat "nat list"

fun exec :: "services \<Rightarrow> operation \<Rightarrow> world \<Rightarrow> world" where
  "exec sv (ContentChange r v a) w =
     w\<lparr>textModels := (textModels w)(r :=
          (textModels w r)\<lparr>content := v, versionId := versionId (textModels w r) + 1,
                            alternativeVersionId := a\<rparr>)\<rparr>"
| "exec sv (MergeChange m c v) w =
     updateInputModel m
       (\<lambda>s. s\<lparr>model := (model s)\<lparr>hasUnhandledConflicts := c,
                                  resultValueWithConflictMarkers := v\<rparr>\<rparr>) w"
| "exec sv (CallAccept m) w = snd (accept sv m w)"
| "exec sv (CallSave m) w = save sv m w"
| "exec sv (CallRevert m) w = revert sv m w"
| "exec sv (CallConfirmClose m ms) w = snd (confirmClose sv m ms w)"

fun run :: "(services \<times> operation) list \<Rightarrow> world \<Rightarrow> world" where
  "run [] w = w"
| "run ((sv, p) # ps) w = run ps (exec sv p w)"

text \<open>
  The scratch document of session \<open>this\<close> is its own: it is the real result document
  of no session. (The factory creates it as a new text model.)
\<close>

definition scratch_private :: "world \<Rightarrow> nat \<Rightarrow> bool" where
  "scratch_private w this =
     (\<forall>k. result (inputModels w k) \<noteq> resultTextModel (model (inputModels w this)))"

text \<open>
  The next two definitions follow the spec's words (the marker recorded at the last
  save point, set at construction and updated by accept and discard); they are what
  the session's field \<open>savedAltVersionId\<close> is compared with.

  Does the step reach a save point of session \<open>this\<close>: does it run \<^verbatim>\<open>accept\<close> on
  \<open>this\<close>, or the internal discard up to the statement that records the marker.
\<close>

fun reaches_save_point :: "services \<Rightarrow> world \<Rightarrow> nat \<Rightarrow> operation \<Rightarrow> bool" where
  "reaches_save_point sv w this (CallAccept m) = (m = this)"
| "reaches_save_point sv w this (CallSave m) =
     (m = this \<and> \<not> finished (inputModels w this) \<and> dialogService_show sv save_dialog = 0)"
| "reaches_save_point sv w this (CallConfirmClose m ms) =
     (list_ex (\<lambda>k. k = this) ms \<and>
      (let choice = (if list_ex (isDirty w) ms
                     then dialogService_show sv (confirmClose_dialog w ms) else 1)
       in choice \<noteq> 2 \<and>
          (choice = 0 \<or> textFileService_revert sv (model_uri (scratch w this)) = None)))"
| "reaches_save_point sv w this p = False"

text \<open>
  The marker recorded at the last save point of session \<open>this\<close> along a run: \<open>m\<close> is
  the marker recorded before the run; a step that reaches a save point replaces it by
  the scratch document's marker at that step.
\<close>

fun marker_at_last_save_point ::
  "nat \<Rightarrow> (services \<times> operation) list \<Rightarrow> world \<Rightarrow> nat \<Rightarrow> nat" where
  "marker_at_last_save_point this [] w m = m"
| "marker_at_last_save_point this ((sv, p) # ps) w m =
     marker_at_last_save_point this ps (exec sv p w)
       (if reaches_save_point sv w this p
        then alternativeVersionId (scratch (exec sv p w) this) else m)"

subsection \<open>Example worlds\<close>

text \<open>
  Two temp-file sessions, each with a scratch document under the scheme
  \<^verbatim>\<open>merge-result\<close> and a real result document. Session 20 edits
  \<^verbatim>\<open>/a.txt\<close> (text models 10 and 11), session 21 edits \<^verbatim>\<open>/b.txt\<close> (text
  models 12 and 13). Both save points are the marker 3; the first parameter is the
  marker the scratch document of session 20 has now, the second says whether session
  20 is finished.
\<close>

definition example_document :: "string \<Rightarrow> string \<Rightarrow> string \<Rightarrow> nat \<Rightarrow> text_model" where
  "example_document sch p c a =
     \<lparr>model_uri = \<lparr>scheme = sch, path = p\<rparr>, languageId = ''plaintext'', content = c,
      versionId = a, alternativeVersionId = a\<rparr>"

definition example_merge :: "nat \<Rightarrow> bool \<Rightarrow> string \<Rightarrow> MergeEditorModel" where
  "example_merge r c v =
     \<lparr>base = 14,
      input1 = \<lparr>textModel = 15, title = None, description = None, detail_of = None\<rparr>,
      input2 = \<lparr>textModel = 16, title = None, description = None, detail_of = None\<rparr>,
      resultTextModel = r, hasUnhandledConflicts = c, resultValueWithConflictMarkers = v\<rparr>"

definition example_session :: "nat \<Rightarrow> nat \<Rightarrow> string \<Rightarrow> string \<Rightarrow> bool \<Rightarrow> TempFileMergeEditorInputModel" where
  "example_session sc r p v f =
     \<lparr>model = example_merge sc False v, disposable_of = new_DisposableStore, result = r,
      resultUri = \<lparr>scheme = ''file'', path = p\<rparr>, savedAltVersionId = 3, finished = f\<rparr>"

definition example_world :: "nat \<Rightarrow> bool \<Rightarrow> world" where
  "example_world a f =
     \<lparr>textModels =
        (\<lambda>i. if i = 10 then example_document ''merge-result'' ''/a.txt'' ''draft a'' a
             else if i = 11 then example_document ''file'' ''/a.txt'' ''old a'' 3
             else if i = 12 then example_document ''merge-result'' ''/b.txt'' ''draft b'' 3
             else example_document ''file'' ''/b.txt'' ''old b'' 3),
      inputModels =
        (\<lambda>i. if i = 20 then example_session 10 11 ''/a.txt'' ''merged a'' f
             else example_session 12 13 ''/b.txt'' ''merged b'' False),
      calls = [], nextTextModel = 17, references = [], released = [],
      unexpectedErrors = []\<rparr>"

text \<open>
  Services whose dialog answers with the given action, whose saves and reverts all have
  the given outcome, and which know one merge editor and one file editor per resource.
\<close>

definition example_services :: "nat \<Rightarrow> error option \<Rightarrow> services" where
  "example_services c r =
     \<lparr>dialogService_show = (\<lambda>d. c),
      textFileService_save = (\<lambda>u. r),
      textFileService_revert = (\<lambda>u. r),
      editorService_findEditors =
        (\<lambda>u. [\<lparr>groupId = 5, typeId = ''mergeEditor.Input''\<rparr>,
              \<lparr>groupId = 6, typeId = ''workbench.editors.files.fileEditorInput''\<rparr>])\<rparr>"

text \<open>
  A host that resolves every identifier but those of scheme \<^verbatim>\<open>missing\<close>, with the
  given registry of tracked files and the given announcements; and the arguments of a
  merge of \<^verbatim>\<open>/a.txt\<close> whose base has the given scheme.
\<close>

definition example_host :: "text_file_model list \<Rightarrow> text_file_model list \<Rightarrow> host" where
  "example_host reg ann =
     \<lparr>createModelReference =
        (\<lambda>u. if scheme u = ''missing'' then Inl (Rejected ''unable to resolve'')
             else if path u = ''/a.txt'' then Inr 11
             else if path u = ''/base'' then Inr 14
             else if path u = ''/theirs'' then Inr 15
             else Inr 16),
      files_models = reg, files_onDidCreate = ann,
      merge_hasUnhandledConflicts = False, merge_resultValue = ''merged a''\<rparr>"

definition example_args :: "string \<Rightarrow> MergeEditorArgs" where
  "example_args s =
     \<lparr>args_base = \<lparr>scheme = s, path = ''/base''\<rparr>,
      args_input1 =
        \<lparr>data_uri = \<lparr>scheme = ''git'', path = ''/theirs''\<rparr>, data_title = Some ''Theirs'',
         data_detail = None, data_description = None\<rparr>,
      args_input2 =
        \<lparr>data_uri = \<lparr>scheme = ''git'', path = ''/yours''\<rparr>, data_title = Some ''Yours'',
         data_detail = None, data_description = None\<rparr>,
      args_result = \<lparr>scheme = ''file'', path = ''/a.txt''\<rparr>\<rparr>"

section \<open>Properties\<close>

subsection \<open>The two variants\<close>

text \<open>
  C9: every temp-file session answers \<^verbatim>\<open>shouldConfirmClose\<close> with true, every
  workspace session with false.
\<close>

theorem shouldConfirmClose_by_variant:
  "IMergeEditorInputModel_shouldConfirmClose (TempFile t) = True
   \<and> IMergeEditorInputModel_shouldConfirmClose (Workspace s) = False"
  by (simp add: shouldConfirmClose_def ws_shouldConfirmClose_def)

subsection \<open>Batches\<close>

text \<open>
  The second equation of \<open>Promise_all\<close> is used through the two projections below.
\<close>

lemma snd_Promise_all_Cons:
  "snd (Promise_all f (m # ms) w) = snd (Promise_all f ms (snd (f m w)))"
  by (simp split: prod.splits)

lemma fst_Promise_all_Cons:
  "fst (Promise_all f (m # ms) w) =
     (case fst (f m w) of Inl e \<Rightarrow> Inl e | Inr u \<Rightarrow> fst (Promise_all f ms (snd (f m w))))"
  by (cases "f m w"; cases "Promise_all f ms (snd (f m w))") (auto split: sum.splits)

lemmas Promise_all_Cons = snd_Promise_all_Cons fst_Promise_all_Cons

declare Promise_all.simps(2) [simp del]

subsection \<open>The internal discard\<close>

lemma discard_frame:
  "textModels (snd (discard sv m w)) = textModels w"
  "model (inputModels (snd (discard sv m w)) k) = model (inputModels w k)"
  "result (inputModels (snd (discard sv m w)) k) = result (inputModels w k)"
  by (auto simp: discard_def recordCall_def updateInputModel_def Let_def split: option.splits)

lemma scratch_discard: "scratch (snd (discard sv m w)) = scratch w"
  by (rule ext) (simp add: scratch_def discard_frame)

lemma calls_discard:
  "calls (snd (discard sv m w)) = calls w @ [TextFileRevert (model_uri (scratch w m))]"
  by (auto simp: discard_def recordCall_def updateInputModel_def Let_def split: option.splits)

lemma fst_discard:
  "fst (discard sv m w) =
     (case textFileService_revert sv (model_uri (scratch w m)) of
        Some e \<Rightarrow> Inl e | None \<Rightarrow> Inr ())"
  by (auto simp: discard_def Let_def split: option.splits)

lemma finished_discard:
  "finished (inputModels (snd (discard sv m w)) k) =
     (if k = m \<and> textFileService_revert sv (model_uri (scratch w m)) = None then True
      else finished (inputModels w k))"
  by (auto simp: discard_def recordCall_def updateInputModel_def Let_def split: option.splits)

lemma saved_discard:
  "savedAltVersionId (inputModels (snd (discard sv m w)) k) =
     (if k = m \<and> textFileService_revert sv (model_uri (scratch w m)) = None
      then alternativeVersionId (scratch w m)
      else savedAltVersionId (inputModels w k))"
  by (auto simp: discard_def recordCall_def updateInputModel_def scratch_def Let_def split: option.splits)

lemma discard_private:
  "scratch_private (snd (discard sv m w)) this = scratch_private w this"
  by (simp add: scratch_private_def discard_frame)

lemma discard_all_scratch: "scratch (snd (Promise_all (discard sv) ms w)) = scratch w"
  by (induction ms arbitrary: w) (simp_all add: Promise_all_Cons scratch_discard)

lemma discard_all_textModels: "textModels (snd (Promise_all (discard sv) ms w)) = textModels w"
  by (induction ms arbitrary: w) (simp_all add: Promise_all_Cons discard_frame)

lemma discard_all_frame:
  "model (inputModels (snd (Promise_all (discard sv) ms w)) k) = model (inputModels w k)"
  "result (inputModels (snd (Promise_all (discard sv) ms w)) k) = result (inputModels w k)"
  by (induction ms arbitrary: w) (simp_all add: Promise_all_Cons discard_frame)

lemma discard_all_private:
  "scratch_private (snd (Promise_all (discard sv) ms w)) this = scratch_private w this"
  by (induction ms arbitrary: w) (simp_all add: Promise_all_Cons discard_private)

lemma discard_all_calls:
  "calls (snd (Promise_all (discard sv) ms w)) =
     calls w @ map (\<lambda>m. TextFileRevert (model_uri (scratch w m))) ms"
  by (induction ms arbitrary: w) (simp_all add: Promise_all_Cons calls_discard scratch_discard)

lemma discard_all_resolves:
  "\<forall>m\<in>set ms. textFileService_revert sv (model_uri (scratch w m)) = None \<Longrightarrow>
   fst (Promise_all (discard sv) ms w) = Inr ()"
  by (induction ms arbitrary: w) (simp_all add: Promise_all_Cons fst_discard scratch_discard)

lemma discard_all_finished:
  "finished (inputModels (snd (Promise_all (discard sv) ms w)) k) =
     (finished (inputModels w k) \<or>
      (k \<in> set ms \<and> textFileService_revert sv (model_uri (scratch w k)) = None))"
proof (induction ms arbitrary: w)
  case Nil
  show ?case by simp
next
  case (Cons m ms)
  have step: "finished (inputModels (snd (Promise_all (discard sv) (m # ms) w)) k) =
        (finished (inputModels (snd (discard sv m w)) k) \<or>
         (k \<in> set ms \<and> textFileService_revert sv (model_uri (scratch w k)) = None))"
    by (simp only: snd_Promise_all_Cons Cons.IH scratch_discard)
  show ?case
    unfolding step finished_discard by auto
qed

lemma discard_all_saved:
  "savedAltVersionId (inputModels (snd (Promise_all (discard sv) ms w)) k) =
     (if k \<in> set ms \<and> textFileService_revert sv (model_uri (scratch w k)) = None
      then alternativeVersionId (scratch w k) else savedAltVersionId (inputModels w k))"
proof (induction ms arbitrary: w)
  case Nil
  show ?case by simp
next
  case (Cons m ms)
  have step: "savedAltVersionId (inputModels (snd (Promise_all (discard sv) (m # ms) w)) k) =
     (if k \<in> set ms \<and> textFileService_revert sv (model_uri (scratch w k)) = None
      then alternativeVersionId (scratch w k)
      else savedAltVersionId (inputModels (snd (discard sv m w)) k))"
    by (simp only: snd_Promise_all_Cons Cons.IH scratch_discard)
  show ?case
    unfolding step saved_discard by auto
qed

subsection \<open>Accepting\<close>

lemma content_setValue: "content (setValue v m) = v"
  by (simp add: setValue_def)

lemma recordCall_frame:
  "textModels (recordCall c w) = textModels w"
  "inputModels (recordCall c w) = inputModels w"
  "scratch (recordCall c w) = scratch w"
  "scratch_private (recordCall c w) this = scratch_private w this"
  by (simp_all add: recordCall_def scratch_def scratch_private_def fun_eq_iff)

lemma dialogs_of_append: "dialogs_of (cs @ ds) = dialogs_of cs @ dialogs_of ds"
  by (induction cs rule: dialogs_of.induct) simp_all

lemma dialogs_of_reverts: "dialogs_of (map (\<lambda>m. TextFileRevert (f m)) ms) = []"
  by (induction ms) simp_all

lemma accept_textModels:
  "textModels (snd (accept sv m w)) =
     (textModels w)(result (inputModels w m) :=
        setValue (resultValueWithConflictMarkers (model (inputModels w m)))
          (textModels w (result (inputModels w m))))"
  by (simp add: accept_def recordCall_def updateInputModel_def Let_def split: option.splits)

lemma accept_calls:
  "calls (snd (accept sv m w)) =
     calls w @ [TextFileSave (model_uri (textModels w (result (inputModels w m))))
                  (resultValueWithConflictMarkers (model (inputModels w m)))]"
  by (simp add: accept_def recordCall_def updateInputModel_def setValue_def Let_def
           split: option.splits)

lemma fst_accept:
  "fst (accept sv m w) =
     (case textFileService_save sv (model_uri (textModels w (result (inputModels w m)))) of
        Some e \<Rightarrow> Inl e | None \<Rightarrow> Inr ())"
  by (simp add: accept_def recordCall_def updateInputModel_def setValue_def Let_def
           split: option.splits)

lemma accept_frame:
  "model (inputModels (snd (accept sv m w)) k) = model (inputModels w k)"
  "result (inputModels (snd (accept sv m w)) k) = result (inputModels w k)"
  "resultUri (inputModels (snd (accept sv m w)) k) = resultUri (inputModels w k)"
  by (simp_all add: accept_def recordCall_def updateInputModel_def Let_def split: option.splits)

lemma accept_saved:
  "savedAltVersionId (inputModels (snd (accept sv m w)) k) =
     (if k = m then alternativeVersionId (scratch (snd (accept sv m w)) m)
      else savedAltVersionId (inputModels w k))"
  by (simp add: accept_def recordCall_def updateInputModel_def scratch_def Let_def
           split: option.splits)

lemma accept_finished:
  "finished (inputModels (snd (accept sv m w)) k) =
     (if k = m \<and>
         textFileService_save sv (model_uri (textModels w (result (inputModels w m)))) = None
      then True else finished (inputModels w k))"
  by (simp add: accept_def recordCall_def updateInputModel_def setValue_def Let_def
           split: option.splits)

lemma accept_scratch:
  assumes "scratch_private w this"
  shows "scratch (snd (accept sv m w)) this = scratch w this"
  using assms by (auto simp: scratch_def scratch_private_def accept_textModels accept_frame)

lemma accept_private:
  "scratch_private (snd (accept sv m w)) this = scratch_private w this"
  by (simp add: scratch_private_def accept_frame)

lemma accept_all_frame:
  "model (inputModels (snd (Promise_all (accept sv) ms w)) k) = model (inputModels w k)"
  "result (inputModels (snd (Promise_all (accept sv) ms w)) k) = result (inputModels w k)"
  by (induction ms arbitrary: w) (simp_all add: Promise_all_Cons accept_frame)

lemma accept_all_private:
  "scratch_private (snd (Promise_all (accept sv) ms w)) this = scratch_private w this"
  by (induction ms arbitrary: w) (simp_all add: Promise_all_Cons accept_private)

lemma accept_all_scratch:
  "scratch_private w this \<Longrightarrow> scratch (snd (Promise_all (accept sv) ms w)) this = scratch w this"
  by (induction ms arbitrary: w) (simp_all add: Promise_all_Cons accept_private accept_scratch)

lemma accept_all_saved:
  "scratch_private w this \<Longrightarrow>
   savedAltVersionId (inputModels (snd (Promise_all (accept sv) ms w)) this) =
     (if this \<in> set ms then alternativeVersionId (scratch w this)
      else savedAltVersionId (inputModels w this))"
proof (induction ms arbitrary: w)
  case Nil
  show ?case by simp
next
  case (Cons m ms)
  have p: "scratch_private (snd (accept sv m w)) this"
    using Cons.prems by (simp add: accept_private)
  have step: "savedAltVersionId (inputModels (snd (Promise_all (accept sv) (m # ms) w)) this) =
     (if this \<in> set ms then alternativeVersionId (scratch w this)
      else savedAltVersionId (inputModels (snd (accept sv m w)) this))"
    by (simp only: snd_Promise_all_Cons Cons.IH [OF p] accept_scratch [OF Cons.prems])
  have s: "savedAltVersionId (inputModels (snd (accept sv m w)) this) =
     (if this = m then alternativeVersionId (scratch w this)
      else savedAltVersionId (inputModels w this))"
  proof (cases "this = m")
    case True
    then show ?thesis
      using accept_scratch [OF Cons.prems, of sv m] by (simp add: accept_saved)
  next
    case False
    then show ?thesis by (simp add: accept_saved)
  qed
  show ?case
    unfolding step s by auto
qed

subsection \<open>The branches of save and confirmClose\<close>

lemma save_cases:
  "save sv m w =
     (if finished (inputModels w m) then w
      else if dialogService_show sv save_dialog \<noteq> 0
      then recordCall (DialogShow save_dialog) w
      else if isl (fst (accept sv m (recordCall (DialogShow save_dialog) w)))
      then snd (accept sv m (recordCall (DialogShow save_dialog) w))
      else recordCall
             (CloseEditors (filter (\<lambda>e. typeId e = ''mergeEditor.Input'')
                (editorService_findEditors sv (resultUri (inputModels w m)))))
             (snd (accept sv m (recordCall (DialogShow save_dialog) w))))"
proof (cases "accept sv m (recordCall (DialogShow save_dialog) w)")
  case (Pair r w2)
  have "resultUri (inputModels w2 m) = resultUri (inputModels w m)"
    using accept_frame(3) [of sv m "recordCall (DialogShow save_dialog) w" m] Pair
    by (simp add: recordCall_def)
  then show ?thesis
    using Pair by (cases r) (simp_all add: save_def Let_def)
qed

lemma assertFn_fields:
  "textModels (assertFn c w) = textModels w"
  "inputModels (assertFn c w) = inputModels w"
  "calls (assertFn c w) = calls w"
  by (simp_all add: assertFn_def)

lemma scratch_assertFn: "scratch (assertFn c w) = scratch w"
  by (rule ext) (simp add: scratch_def assertFn_fields)

lemma isDirty_assertFn: "isDirty (assertFn c w) = isDirty w"
  by (rule ext) (simp add: isDirty_def scratch_assertFn assertFn_fields)

lemma scratch_private_assertFn: "scratch_private (assertFn c w) this = scratch_private w this"
  by (simp add: scratch_private_def assertFn_fields)

lemma confirmClose_dialog_assertFn: "confirmClose_dialog (assertFn c w) = confirmClose_dialog w"
  by (rule ext) (simp add: confirmClose_dialog_def Let_def scratch_assertFn assertFn_fields)

lemmas assertFn_frame = assertFn_fields scratch_assertFn isDirty_assertFn
  scratch_private_assertFn confirmClose_dialog_assertFn

lemma confirmClose_cases:
  "snd (confirmClose sv m ms w) =
     (if list_ex (isDirty w) ms then
        (if dialogService_show sv (confirmClose_dialog w ms) = 2
         then recordCall (DialogShow (confirmClose_dialog w ms)) (assertFn (m \<in> set ms) w)
         else if dialogService_show sv (confirmClose_dialog w ms) = 0
         then snd (Promise_all (accept sv) ms
                (recordCall (DialogShow (confirmClose_dialog w ms)) (assertFn (m \<in> set ms) w)))
         else snd (Promise_all (discard sv) ms
                (recordCall (DialogShow (confirmClose_dialog w ms)) (assertFn (m \<in> set ms) w))))
      else snd (Promise_all (discard sv) ms (assertFn (m \<in> set ms) w)))"
  by (cases "Promise_all (accept sv) ms
               (recordCall (DialogShow (confirmClose_dialog w ms)) (assertFn (m \<in> set ms) w))";
      cases "Promise_all (discard sv) ms
               (recordCall (DialogShow (confirmClose_dialog w ms)) (assertFn (m \<in> set ms) w))";
      cases "Promise_all (discard sv) ms (assertFn (m \<in> set ms) w)")
     (auto simp: confirmClose_def Let_def list_ex_iff assertFn_frame split: sum.splits)

lemma confirmClose_clean:
  assumes "\<forall>m\<in>set inputs. \<not> isDirty w m"
  shows "confirmClose sv this inputs w =
     (case Promise_all (discard sv) inputs (assertFn (this \<in> set inputs) w) of
        (Inl e, w2) \<Rightarrow> (Inl e, w2) | (Inr u, w2) \<Rightarrow> (Inr DONT_SAVE, w2))"
  using assms by (simp add: confirmClose_def list_ex_iff Let_def assertFn_frame)

lemma snd_confirmClose_clean:
  assumes "\<forall>m\<in>set inputs. \<not> isDirty w m"
  shows "snd (confirmClose sv this inputs w)
     = snd (Promise_all (discard sv) inputs (assertFn (this \<in> set inputs) w))"
  unfolding confirmClose_clean [OF assms]
  by (cases "Promise_all (discard sv) inputs (assertFn (this \<in> set inputs) w)")
     (simp split: sum.splits)

lemma fst_confirmClose_clean:
  assumes "\<forall>m\<in>set inputs. \<not> isDirty w m"
  shows "fst (confirmClose sv this inputs w) =
     (case fst (Promise_all (discard sv) inputs (assertFn (this \<in> set inputs) w)) of
        Inl e \<Rightarrow> Inl e | Inr u \<Rightarrow> Inr DONT_SAVE)"
  unfolding confirmClose_clean [OF assms]
  by (cases "Promise_all (discard sv) inputs (assertFn (this \<in> set inputs) w)")
     (simp split: sum.splits)

lemma discard_all_unexpectedErrors:
  "unexpectedErrors (snd (Promise_all (discard sv) ms w)) = unexpectedErrors w"
  by (induction ms arbitrary: w)
     (simp_all add: Promise_all_Cons discard_def Let_def recordCall_def updateInputModel_def
        split: option.splits)

lemma accept_all_unexpectedErrors:
  "unexpectedErrors (snd (Promise_all (accept sv) ms w)) = unexpectedErrors w"
  by (induction ms arbitrary: w)
     (simp_all add: Promise_all_Cons accept_def Let_def recordCall_def updateInputModel_def
        split: option.splits)

text \<open>
  The assertion of \<^verbatim>\<open>confirmClose\<close> never changes its course: a receiver outside
  the sessions is reported once as an unexpected error, and nothing else is.
\<close>

lemma confirmClose_reports_failed_assertion:
  "unexpectedErrors (snd (confirmClose sv this inputs w))
     = unexpectedErrors w @ (if this \<in> set inputs then [] else [BugIndicatingError])"
  by (simp add: confirmClose_cases accept_all_unexpectedErrors discard_all_unexpectedErrors
        recordCall_def assertFn_def)

subsection \<open>The example world\<close>

lemma example_world_sessions:
  "result (inputModels (example_world a f) 20) = 11"
  "result (inputModels (example_world a f) 21) = 13"
  "resultTextModel (model (inputModels (example_world a f) 20)) = 10"
  "resultTextModel (model (inputModels (example_world a f) 21)) = 12"
  "resultValueWithConflictMarkers (model (inputModels (example_world a f) 20)) = ''merged a''"
  "resultValueWithConflictMarkers (model (inputModels (example_world a f) 21)) = ''merged b''"
  "hasUnhandledConflicts (model (inputModels (example_world a f) 20)) = False"
  "hasUnhandledConflicts (model (inputModels (example_world a f) 21)) = False"
  "savedAltVersionId (inputModels (example_world a f) 20) = 3"
  "savedAltVersionId (inputModels (example_world a f) 21) = 3"
  "finished (inputModels (example_world a f) 20) = f"
  "finished (inputModels (example_world a f) 21) = False"
  "resultUri (inputModels (example_world a f) 20) = \<lparr>scheme = ''file'', path = ''/a.txt''\<rparr>"
  "calls (example_world a f) = []"
  by (simp_all add: example_world_def example_session_def example_merge_def)

lemma example_world_documents:
  "textModels (example_world a f) 10 = example_document ''merge-result'' ''/a.txt'' ''draft a'' a"
  "textModels (example_world a f) 11 = example_document ''file'' ''/a.txt'' ''old a'' 3"
  "textModels (example_world a f) 12 = example_document ''merge-result'' ''/b.txt'' ''draft b'' 3"
  "textModels (example_world a f) 13 = example_document ''file'' ''/b.txt'' ''old b'' 3"
  by (simp_all add: example_world_def)

lemma example_document_fields:
  "model_uri (example_document s p c a) = \<lparr>scheme = s, path = p\<rparr>"
  "content (example_document s p c a) = c"
  "alternativeVersionId (example_document s p c a) = a"
  by (simp_all add: example_document_def)

lemma example_services_fields:
  "dialogService_show (example_services c r) d = c"
  "textFileService_save (example_services c r) u = r"
  "textFileService_revert (example_services c r) u = r"
  by (simp_all add: example_services_def)

lemmas example_simps = example_world_sessions example_world_documents example_document_fields
  example_services_fields

lemma example_isDirty:
  "isDirty (example_world a f) 20 = (a \<noteq> 3)"
  "isDirty (example_world a f) 21 = False"
  by (simp_all add: isDirty_def scratch_def example_simps)

lemma example_editors:
  "filter (\<lambda>e. typeId e = ''mergeEditor.Input'')
     (editorService_findEditors (example_services c r) u)
   = [\<lparr>groupId = 5, typeId = ''mergeEditor.Input''\<rparr>]"
  by (simp add: example_services_def)

lemma example_private: "scratch_private (example_world a f) 20"
  by (simp add: scratch_private_def example_world_def example_session_def example_merge_def)

lemma example_constructed:
  "inputModels (example_world 3 False) 20 =
     new_TempFileMergeEditorInputModel (example_world 3 False)
       (example_merge 10 False ''merged a'') new_DisposableStore 11
       \<lparr>scheme = ''file'', path = ''/a.txt''\<rparr>"
  by (simp add: new_TempFileMergeEditorInputModel_def example_world_def example_session_def
        example_merge_def example_document_def)

lemma example_host_fields:
  "createModelReference (example_host reg ann) \<lparr>scheme = ''missing'', path = p\<rparr>
     = Inl (Rejected ''unable to resolve'')"
  "createModelReference (example_host reg ann) \<lparr>scheme = ''file'', path = ''/a.txt''\<rparr> = Inr 11"
  "createModelReference (example_host reg ann) \<lparr>scheme = ''file'', path = ''/base''\<rparr> = Inr 14"
  "createModelReference (example_host reg ann) \<lparr>scheme = ''git'', path = ''/theirs''\<rparr> = Inr 15"
  "createModelReference (example_host reg ann) \<lparr>scheme = ''git'', path = ''/yours''\<rparr> = Inr 16"
  "files_models (example_host reg ann) = reg"
  "files_onDidCreate (example_host reg ann) = ann"
  by (simp_all add: example_host_def)

lemma example_resolutions:
  "resolutions (example_args s) =
     [\<lparr>scheme = s, path = ''/base''\<rparr>, \<lparr>scheme = ''file'', path = ''/a.txt''\<rparr>,
      \<lparr>scheme = ''git'', path = ''/theirs''\<rparr>, \<lparr>scheme = ''git'', path = ''/yours''\<rparr>]"
  "args_result (example_args s) = \<lparr>scheme = ''file'', path = ''/a.txt''\<rparr>"
  "data_uri (args_input1 (example_args s)) = \<lparr>scheme = ''git'', path = ''/theirs''\<rparr>"
  "data_uri (args_input2 (example_args s)) = \<lparr>scheme = ''git'', path = ''/yours''\<rparr>"
  by (simp_all add: resolutions_def example_args_def)

lemma example_resolved_handles:
  "resolved_handles (example_host reg ann) (resolutions (example_args ''missing'')) =
     [\<lparr>ref_uri = \<lparr>scheme = ''file'', path = ''/a.txt''\<rparr>, ref_object = 11\<rparr>,
      \<lparr>ref_uri = \<lparr>scheme = ''git'', path = ''/theirs''\<rparr>, ref_object = 15\<rparr>,
      \<lparr>ref_uri = \<lparr>scheme = ''git'', path = ''/yours''\<rparr>, ref_object = 16\<rparr>]"
  by (simp add: resolved_handles_def example_resolutions example_host_fields)

lemma example_first_rejection:
  "first_rejection (example_host reg ann) (resolutions (example_args ''missing''))
     = Some (Rejected ''unable to resolve'')"
  "first_rejection (example_host reg ann) (resolutions (example_args ''file'')) = None"
  by (simp_all add: example_resolutions example_host_fields)

lemma example_tracked:
  "snd (fold (onDidCreate u) []
     (fold (handleDidCreate u)
        [\<lparr>resource = \<lparr>scheme = ''file'', path = ''/b.txt''\<rparr>, file_dirty = False\<rparr>,
         \<lparr>resource = u, file_dirty = True\<rparr>] (True, None)))
   = Some \<lparr>resource = u, file_dirty = True\<rparr>"
  "snd (fold (onDidCreate u)
        [\<lparr>resource = u, file_dirty = False\<rparr>, \<lparr>resource = u, file_dirty = True\<rparr>]
     (fold (handleDidCreate u) [] (True, None)))
   = Some \<lparr>resource = u, file_dirty = False\<rparr>"
  by (simp_all add: handleDidCreate_def onDidCreate_def)

subsection \<open>Accept and save\<close>

text \<open>
  C5: when the text-file service's save resolves, \<^verbatim>\<open>accept\<close> resolves; it has read
  the merge model's value with conflict markers, the real result document holds exactly
  that value, the save of that document was requested while it held that value, the save
  point is the scratch document's current marker (the session is not dirty), and the
  session is finished.
\<close>

theorem accept_writes_persists_records_finishes:
  assumes "textFileService_save sv (model_uri (textModels w (result (inputModels w this)))) = None"
  shows "fst (accept sv this w) = Inr ()
    \<and> content (textModels (snd (accept sv this w)) (result (inputModels w this)))
        = resultValueWithConflictMarkers (model (inputModels w this))
    \<and> calls (snd (accept sv this w))
        = calls w @ [TextFileSave (model_uri (textModels w (result (inputModels w this))))
                       (resultValueWithConflictMarkers (model (inputModels w this)))]
    \<and> savedAltVersionId (inputModels (snd (accept sv this w)) this)
        = alternativeVersionId (scratch (snd (accept sv this w)) this)
    \<and> \<not> isDirty (snd (accept sv this w)) this
    \<and> finished (inputModels (snd (accept sv this w)) this)"
  using assms
  by (simp add: fst_accept accept_textModels accept_calls accept_saved accept_finished
        content_setValue isDirty_def)

text \<open>
  The dirty session 20 of the example world accepts: \<^verbatim>\<open>/a.txt\<close> receives the merged
  text, the session ends clean and finished.
\<close>

theorem accept_witness:
  "fst (accept (example_services 0 None) 20 (example_world 5 False)) = Inr ()
   \<and> content (textModels (snd (accept (example_services 0 None) 20 (example_world 5 False))) 11)
       = ''merged a''
   \<and> isDirty (example_world 5 False) 20
   \<and> \<not> isDirty (snd (accept (example_services 0 None) 20 (example_world 5 False))) 20
   \<and> finished (inputModels (snd (accept (example_services 0 None) 20 (example_world 5 False))) 20)"
proof -
  have h: "textFileService_save (example_services 0 None)
             (model_uri (textModels (example_world 5 False)
                (result (inputModels (example_world 5 False) 20)))) = None"
    by (simp add: example_simps)
  show ?thesis
    using accept_writes_persists_records_finishes [OF h]
    by (simp add: example_simps example_isDirty)
qed

text \<open>
  C6, as the code has it: on a finished session \<^verbatim>\<open>save\<close> and \<^verbatim>\<open>revert\<close> change
  nothing at all (no dialog, no write, no state change, and \<^verbatim>\<open>save\<close> cannot reject).
  \<^verbatim>\<open>accept\<close> has no such guard: called again, it writes the merge value into the real
  result document and requests its save again.
\<close>

theorem finished_save_ignored_accept_writes:
  assumes "finished (inputModels w this)"
  shows "save sv this w = w
    \<and> revert sv this w = w
    \<and> content (textModels (snd (accept sv this w)) (result (inputModels w this)))
        = resultValueWithConflictMarkers (model (inputModels w this))
    \<and> calls (snd (accept sv this w))
        = calls w @ [TextFileSave (model_uri (textModels w (result (inputModels w this))))
                       (resultValueWithConflictMarkers (model (inputModels w this)))]"
  using assms
  by (simp add: save_def revert_def accept_textModels accept_calls content_setValue)

text \<open>
  Session 20 of the example world, finished: \<^verbatim>\<open>save\<close> returns the world as it was,
  \<^verbatim>\<open>accept\<close> requests a save of \<^verbatim>\<open>/a.txt\<close>.
\<close>

theorem finished_save_witness:
  "finished (inputModels (example_world 3 True) 20)
   \<and> save (example_services 0 None) 20 (example_world 3 True) = example_world 3 True
   \<and> calls (snd (accept (example_services 0 None) 20 (example_world 3 True)))
       = [TextFileSave \<lparr>scheme = ''file'', path = ''/a.txt''\<rparr> ''merged a'']"
proof -
  have h: "finished (inputModels (example_world 3 True) 20)"
    by (simp add: example_simps)
  show ?thesis
    using finished_save_ignored_accept_writes [OF h, of "example_services 0 None"] h
    by (simp add: example_simps)
qed

text \<open>
  C6 as stated fails for \<^verbatim>\<open>accept\<close>: session 20 is finished and \<^verbatim>\<open>/a.txt\<close> holds
  its old text; a further \<^verbatim>\<open>accept\<close> overwrites it with the merged text and calls
  the text-file service.
\<close>

theorem accept_after_finish_counterexample:
  "finished (inputModels (example_world 3 True) 20)
   \<and> content (textModels (example_world 3 True) 11) = ''old a''
   \<and> content (textModels (snd (accept (example_services 0 None) 20 (example_world 3 True))) 11)
       = ''merged a''
   \<and> calls (example_world 3 True) = []
   \<and> calls (snd (accept (example_services 0 None) 20 (example_world 3 True)))
       = [TextFileSave \<lparr>scheme = ''file'', path = ''/a.txt''\<rparr> ''merged a'']
   \<and> snd (accept (example_services 0 None) 20 (example_world 3 True)) \<noteq> example_world 3 True"
proof -
  have c: "content (textModels (snd (accept (example_services 0 None) 20 (example_world 3 True))) 11)
       = ''merged a''"
    by (simp add: accept_textModels content_setValue example_simps)
  have o: "content (textModels (example_world 3 True) 11) = ''old a''"
    by (simp add: example_simps)
  have "snd (accept (example_services 0 None) 20 (example_world 3 True)) \<noteq> example_world 3 True"
    using c o by auto
  then show ?thesis using c o
    by (simp add: accept_calls example_simps)
qed

text \<open>
  C10: on a session that is not finished, \<^verbatim>\<open>save\<close> first shows the confirmation
  dialog. When the user chooses the first action (Accept Merge) and the text-file
  service's save resolves, \<^verbatim>\<open>save\<close> is \<^verbatim>\<open>accept\<close> followed by the request to
  close the editors of type \<^verbatim>\<open>mergeEditor.Input\<close> that the editor service finds for
  the result identifier. When the user chooses anything else, no text model and no
  session changes; only the dialog was shown.
\<close>

theorem save_prompts_then_accepts_and_closes:
  assumes "\<not> finished (inputModels w this)"
  shows "(\<exists>cs. calls (save sv this w) = calls w @ DialogShow save_dialog # cs)
    \<and> (dialogService_show sv save_dialog = 0
        \<and> textFileService_save sv (model_uri (textModels w (result (inputModels w this)))) = None
       \<longrightarrow> save sv this w
             = recordCall
                 (CloseEditors (filter (\<lambda>e. typeId e = ''mergeEditor.Input'')
                    (editorService_findEditors sv (resultUri (inputModels w this)))))
                 (snd (accept sv this (recordCall (DialogShow save_dialog) w)))
           \<and> fst (accept sv this (recordCall (DialogShow save_dialog) w)) = Inr ()
           \<and> calls (save sv this w)
             = calls w @
               [DialogShow save_dialog,
                TextFileSave (model_uri (textModels w (result (inputModels w this))))
                  (resultValueWithConflictMarkers (model (inputModels w this))),
                CloseEditors (filter (\<lambda>e. typeId e = ''mergeEditor.Input'')
                  (editorService_findEditors sv (resultUri (inputModels w this))))])
    \<and> (dialogService_show sv save_dialog \<noteq> 0
       \<longrightarrow> textModels (save sv this w) = textModels w
           \<and> inputModels (save sv this w) = inputModels w
           \<and> calls (save sv this w) = calls w @ [DialogShow save_dialog])"
proof -
  let ?w1 = "recordCall (DialogShow save_dialog) w"
  have c: "calls (snd (accept sv this ?w1)) =
      calls w @ [DialogShow save_dialog,
                 TextFileSave (model_uri (textModels w (result (inputModels w this))))
                   (resultValueWithConflictMarkers (model (inputModels w this)))]"
    by (simp add: accept_calls recordCall_frame) (simp add: recordCall_def)
  have f: "isl (fst (accept sv this ?w1)) =
      (textFileService_save sv (model_uri (textModels w (result (inputModels w this)))) \<noteq> None)"
    by (simp add: fst_accept recordCall_frame split: option.splits)
  have e1: "\<exists>cs. calls ?w1 = calls w @ DialogShow save_dialog # cs"
    by (simp add: recordCall_def)
  have e2: "\<exists>cs. calls (snd (accept sv this ?w1)) = calls w @ DialogShow save_dialog # cs"
    by (simp add: c)
  have e3: "\<exists>cs. calls (recordCall x (snd (accept sv this ?w1)))
               = calls w @ DialogShow save_dialog # cs" for x
    by (simp add: c recordCall_def [of x])
  have shown: "\<exists>cs. calls (save sv this w) = calls w @ DialogShow save_dialog # cs"
    using assms e1 e2 e3 by (simp add: save_cases)
  have yes: "save sv this w
             = recordCall
                 (CloseEditors (filter (\<lambda>e. typeId e = ''mergeEditor.Input'')
                    (editorService_findEditors sv (resultUri (inputModels w this)))))
                 (snd (accept sv this ?w1))
           \<and> fst (accept sv this ?w1) = Inr ()"
    if "dialogService_show sv save_dialog = 0"
      and "textFileService_save sv (model_uri (textModels w (result (inputModels w this)))) = None"
    using assms that by (simp add: save_cases f) (simp add: fst_accept recordCall_frame)
  have no: "textModels (save sv this w) = textModels w
           \<and> inputModels (save sv this w) = inputModels w
           \<and> calls (save sv this w) = calls w @ [DialogShow save_dialog]"
    if "dialogService_show sv save_dialog \<noteq> 0"
    using assms that by (simp add: save_cases recordCall_frame) (simp add: recordCall_def)
  have all: "calls (recordCall x (snd (accept sv this ?w1)))
      = calls w @ [DialogShow save_dialog,
                   TextFileSave (model_uri (textModels w (result (inputModels w this))))
                     (resultValueWithConflictMarkers (model (inputModels w this))), x]" for x
    by (simp add: c recordCall_def [of x])
  show ?thesis
    using shown yes no all by simp
qed

text \<open>
  Session 20 of the example world saved twice from the same state: once the user accepts
  (dialog, save of \<^verbatim>\<open>/a.txt\<close>, close request for the merge editor), once the user
  cancels (dialog only).
\<close>

theorem save_witness:
  "\<not> finished (inputModels (example_world 5 False) 20)
   \<and> calls (save (example_services 0 None) 20 (example_world 5 False))
       = [DialogShow save_dialog,
          TextFileSave \<lparr>scheme = ''file'', path = ''/a.txt''\<rparr> ''merged a'',
          CloseEditors [\<lparr>groupId = 5, typeId = ''mergeEditor.Input''\<rparr>]]
   \<and> calls (save (example_services 1 None) 20 (example_world 5 False)) = [DialogShow save_dialog]
   \<and> inputModels (save (example_services 1 None) 20 (example_world 5 False))
       = inputModels (example_world 5 False)"
proof -
  have h: "\<not> finished (inputModels (example_world 5 False) 20)"
    by (simp add: example_simps)
  have y: "dialogService_show (example_services 0 None) save_dialog = 0
        \<and> textFileService_save (example_services 0 None)
            (model_uri (textModels (example_world 5 False)
               (result (inputModels (example_world 5 False) 20)))) = None"
    by (simp add: example_simps)
  have n: "dialogService_show (example_services 1 None) save_dialog \<noteq> 0"
    by (simp add: example_simps)
  show ?thesis
    using save_prompts_then_accepts_and_closes [OF h, of "example_services 0 None"]
      save_prompts_then_accepts_and_closes [OF h, of "example_services 1 None"] h y n
    by (simp add: example_simps example_editors recordCall_def accept_calls)
qed

subsection \<open>Closing\<close>

text \<open>
  C8: when one of the sessions is dirty and the user answers the dialog with Cancel
  (action 2, also the dialog's cancel id), \<^verbatim>\<open>confirmClose\<close> resolves to
  \<^verbatim>\<open>CANCEL\<close>; no text model and no field of any session has changed (save points,
  finished flags and result documents are as before), so every session is exactly as
  dirty as before. The only call made is the dialog that was shown. This holds whether
  or not the receiver is one of the sessions.
\<close>

theorem confirmClose_cancel_changes_nothing:
  assumes "\<exists>m\<in>set inputs. isDirty w m"
    and "dialogService_show sv (confirmClose_dialog w inputs) = 2"
  shows "fst (confirmClose sv this inputs w) = Inr CANCEL
    \<and> textModels (snd (confirmClose sv this inputs w)) = textModels w
    \<and> inputModels (snd (confirmClose sv this inputs w)) = inputModels w
    \<and> (\<forall>m. isDirty (snd (confirmClose sv this inputs w)) m = isDirty w m)
    \<and> calls (snd (confirmClose sv this inputs w))
        = calls w @ [DialogShow (confirmClose_dialog w inputs)]"
proof -
  let ?w0 = "assertFn (list_ex (\<lambda>m. m = this) inputs) w"
  have c: "confirmClose sv this inputs w
      = (Inr CANCEL, recordCall (DialogShow (confirmClose_dialog w inputs)) ?w0)"
    using assms by (simp add: confirmClose_def list_ex_iff Let_def assertFn_frame)
  have d: "isDirty (recordCall (DialogShow (confirmClose_dialog w inputs)) ?w0) m = isDirty w m"
    for m
    by (simp add: isDirty_def recordCall_frame assertFn_frame)
  show ?thesis
    unfolding c using d by (simp add: recordCall_frame assertFn_frame recordCall_def)
qed

text \<open>
  Sessions 20 (dirty) and 21 (clean) closed together, the user cancels; and session 20
  closed through session 21, which is not in the set.
\<close>

theorem confirmClose_cancel_witness:
  "isDirty (example_world 5 False) 20
   \<and> fst (confirmClose (example_services 2 None) 21 [20, 21] (example_world 5 False)) = Inr CANCEL
   \<and> inputModels (snd (confirmClose (example_services 2 None) 21 [20, 21] (example_world 5 False)))
       = inputModels (example_world 5 False)
   \<and> textModels (snd (confirmClose (example_services 2 None) 21 [20, 21] (example_world 5 False)))
       = textModels (example_world 5 False)
   \<and> isDirty (snd (confirmClose (example_services 2 None) 21 [20, 21] (example_world 5 False))) 20
   \<and> fst (confirmClose (example_services 2 None) 21 [20] (example_world 5 False)) = Inr CANCEL
   \<and> isDirty (snd (confirmClose (example_services 2 None) 21 [20] (example_world 5 False))) 20"
proof -
  have d: "isDirty (example_world 5 False) 20"
    by (simp add: example_isDirty)
  have b: "\<exists>m\<in>set [20, 21]. isDirty (example_world 5 False) m"
    using d by simp
  have c: "dialogService_show (example_services 2 None)
             (confirmClose_dialog (example_world 5 False) [20, 21]) = 2"
    by (simp add: example_simps)
  have b': "\<exists>m\<in>set [20]. isDirty (example_world 5 False) m"
    using d by simp
  have c': "dialogService_show (example_services 2 None)
             (confirmClose_dialog (example_world 5 False) [20]) = 2"
    by (simp add: example_simps)
  show ?thesis
    using confirmClose_cancel_changes_nothing [OF b c, of 21]
      confirmClose_cancel_changes_nothing [OF b' c', of 21] d
    by simp
qed

text \<open>
  C1, as the code has it: when none of the sessions is dirty, \<^verbatim>\<open>confirmClose\<close>
  shows no dialog: the only calls it makes are the reverts of the internal discard, one
  per session. It never resolves to \<^verbatim>\<open>SAVE\<close>; when those reverts resolve it
  resolves to \<^verbatim>\<open>DONT_SAVE\<close>.
\<close>

theorem confirmClose_clean_discards_without_dialog:
  assumes "\<forall>m\<in>set inputs. \<not> isDirty w m"
  shows "dialogs_of (calls (snd (confirmClose sv this inputs w))) = dialogs_of (calls w)
    \<and> calls (snd (confirmClose sv this inputs w))
        = calls w @ map (\<lambda>m. TextFileRevert (model_uri (scratch w m))) inputs
    \<and> fst (confirmClose sv this inputs w) \<noteq> Inr SAVE
    \<and> ((\<forall>m\<in>set inputs. textFileService_revert sv (model_uri (scratch w m)) = None)
        \<longrightarrow> fst (confirmClose sv this inputs w) = Inr DONT_SAVE)"
proof -
  let ?w0 = "assertFn (this \<in> set inputs) w"
  have c: "calls (snd (confirmClose sv this inputs w))
        = calls w @ map (\<lambda>m. TextFileRevert (model_uri (scratch w m))) inputs"
    by (simp add: snd_confirmClose_clean [OF assms] discard_all_calls assertFn_frame)
  have s: "dialogs_of (calls (snd (confirmClose sv this inputs w))) = dialogs_of (calls w)"
    by (simp add: c dialogs_of_append dialogs_of_reverts)
  have n: "fst (confirmClose sv this inputs w) \<noteq> Inr SAVE"
    by (simp add: fst_confirmClose_clean [OF assms] split: sum.splits)
  have d: "fst (confirmClose sv this inputs w) = Inr DONT_SAVE"
    if "\<forall>m\<in>set inputs. textFileService_revert sv (model_uri (scratch w m)) = None"
  proof -
    have "\<forall>m\<in>set inputs. textFileService_revert sv (model_uri (scratch ?w0 m)) = None"
      using that by (simp add: assertFn_frame)
    then show ?thesis
      by (simp add: fst_confirmClose_clean [OF assms] discard_all_resolves)
  qed
  show ?thesis using c s n d by blast
qed

text \<open>
  The two clean sessions of the example world closed together.
\<close>

theorem confirmClose_clean_witness:
  "\<not> isDirty (example_world 3 False) 20 \<and> \<not> isDirty (example_world 3 False) 21
   \<and> fst (confirmClose (example_services 0 None) 20 [20, 21] (example_world 3 False))
       = Inr DONT_SAVE
   \<and> calls (snd (confirmClose (example_services 0 None) 20 [20, 21] (example_world 3 False)))
       = [TextFileRevert \<lparr>scheme = ''merge-result'', path = ''/a.txt''\<rparr>,
          TextFileRevert \<lparr>scheme = ''merge-result'', path = ''/b.txt''\<rparr>]"
proof -
  have b: "\<forall>m\<in>set [20, 21]. \<not> isDirty (example_world 3 False) m"
    by (simp add: example_isDirty)
  have c: "\<forall>m\<in>set [20, 21].
             textFileService_revert (example_services 0 None)
               (model_uri (scratch (example_world 3 False) m)) = None"
    by (simp add: example_simps)
  show ?thesis
    using confirmClose_clean_discards_without_dialog [OF b, of "example_services 0 None" 20] b c
    by (simp add: example_simps scratch_def)
qed

text \<open>
  C1 as stated fails: a single clean session closes with \<^verbatim>\<open>DONT_SAVE\<close>, not with
  \<^verbatim>\<open>SAVE\<close>.
\<close>

theorem confirmClose_clean_not_save_counterexample:
  "\<not> isDirty (example_world 3 False) 20
   \<and> fst (confirmClose (example_services 0 None) 20 [20] (example_world 3 False))
       = Inr DONT_SAVE
   \<and> fst (confirmClose (example_services 0 None) 20 [20] (example_world 3 False)) \<noteq> Inr SAVE"
proof -
  have b: "\<forall>m\<in>set [20]. \<not> isDirty (example_world 3 False) m"
    by (simp add: example_isDirty)
  have c: "\<forall>m\<in>set [20].
             textFileService_revert (example_services 0 None)
               (model_uri (scratch (assertFn (20 \<in> set [20]) (example_world 3 False)) m)) = None"
    by (simp add: example_simps)
  have "fst (confirmClose (example_services 0 None) 20 [20] (example_world 3 False))
       = Inr DONT_SAVE"
    by (simp only: fst_confirmClose_clean [OF b] discard_all_resolves [OF c] sum.case)
  then show ?thesis using b by simp
qed

text \<open>
  C2, as the code has it: when none of the sessions is dirty, \<^verbatim>\<open>confirmClose\<close>
  still runs the internal discard on every session of the set. The revert it requests
  for a session is that of the session's scratch document
  (\<^verbatim>\<open>model.resultTextModel.uri\<close>); no text model is edited. Every session whose
  revert resolves ends finished, with the scratch document's marker as its save point,
  and every later \<^verbatim>\<open>save\<close> on it changes nothing.
\<close>

theorem confirmClose_clean_discards_every_session:
  assumes "\<forall>m\<in>set inputs. \<not> isDirty w m"
  shows "textModels (snd (confirmClose sv this inputs w)) = textModels w
    \<and> (\<forall>m\<in>set inputs.
          TextFileRevert (model_uri (scratch w m)) \<in> set (calls (snd (confirmClose sv this inputs w)))
          \<and> (textFileService_revert sv (model_uri (scratch w m)) = None \<longrightarrow>
               finished (inputModels (snd (confirmClose sv this inputs w)) m)
               \<and> savedAltVersionId (inputModels (snd (confirmClose sv this inputs w)) m)
                   = alternativeVersionId (scratch w m)
               \<and> (\<forall>sv'. save sv' m (snd (confirmClose sv this inputs w))
                          = snd (confirmClose sv this inputs w))))"
proof -
  let ?w0 = "assertFn (this \<in> set inputs) w"
  let ?w' = "snd (confirmClose sv this inputs w)"
  have w': "?w' = snd (Promise_all (discard sv) inputs ?w0)"
    by (rule snd_confirmClose_clean [OF assms])
  have t: "textModels ?w' = textModels w"
    by (simp add: w' discard_all_textModels assertFn_frame)
  have r: "TextFileRevert (model_uri (scratch w m)) \<in> set (calls ?w')" if "m \<in> set inputs" for m
    using that by (simp add: w' discard_all_calls assertFn_frame)
  have f: "finished (inputModels ?w' m)
      \<and> savedAltVersionId (inputModels ?w' m) = alternativeVersionId (scratch w m)
      \<and> (\<forall>sv'. save sv' m ?w' = ?w')"
    if "m \<in> set inputs" and "textFileService_revert sv (model_uri (scratch w m)) = None" for m
  proof -
    have o: "textFileService_revert sv (model_uri (scratch ?w0 m)) = None"
      using that(2) by (simp add: assertFn_frame)
    have "finished (inputModels ?w' m)"
      using that(1) o by (simp add: w' discard_all_finished)
    moreover have "savedAltVersionId (inputModels ?w' m) = alternativeVersionId (scratch w m)"
      using that(1) o by (simp add: w' discard_all_saved assertFn_frame)
    ultimately show ?thesis
      by (simp add: save_def)
  qed
  show ?thesis using t r f by blast
qed

text \<open>
  The two clean sessions of the example world closed together: both end finished.
\<close>

theorem confirmClose_clean_every_session_witness:
  "\<not> isDirty (example_world 3 False) 20 \<and> \<not> isDirty (example_world 3 False) 21
   \<and> \<not> finished (inputModels (example_world 3 False) 20)
   \<and> finished (inputModels
        (snd (confirmClose (example_services 0 None) 20 [20, 21] (example_world 3 False))) 20)
   \<and> finished (inputModels
        (snd (confirmClose (example_services 0 None) 20 [20, 21] (example_world 3 False))) 21)
   \<and> TextFileRevert \<lparr>scheme = ''merge-result'', path = ''/b.txt''\<rparr>
       \<in> set (calls (snd (confirmClose (example_services 0 None) 20 [20, 21]
                           (example_world 3 False))))"
proof -
  have b: "\<forall>m\<in>set [20, 21]. \<not> isDirty (example_world 3 False) m"
    by (simp add: example_isDirty)
  have c: "\<forall>m\<in>set [20, 21].
             textFileService_revert (example_services 0 None)
               (model_uri (scratch (example_world 3 False) m)) = None"
    by (simp add: example_simps)
  show ?thesis
    using confirmClose_clean_discards_every_session [OF b, of "example_services 0 None" 20] b c
    by (simp add: example_simps scratch_def)
qed

text \<open>
  C2 as stated fails in one point: the reverts requested are those of the scratch
  documents (scheme \<^verbatim>\<open>merge-result\<close>); no revert of a real result document
  (\<^verbatim>\<open>file:/a.txt\<close>, \<^verbatim>\<open>file:/b.txt\<close>) is ever requested.
\<close>

theorem discard_reverts_scratch_counterexample:
  "\<not> isDirty (example_world 3 False) 20 \<and> \<not> isDirty (example_world 3 False) 21
   \<and> model_uri (textModels (example_world 3 False) (result (inputModels (example_world 3 False) 20)))
       = \<lparr>scheme = ''file'', path = ''/a.txt''\<rparr>
   \<and> model_uri (textModels (example_world 3 False) (result (inputModels (example_world 3 False) 21)))
       = \<lparr>scheme = ''file'', path = ''/b.txt''\<rparr>
   \<and> calls (snd (confirmClose (example_services 0 None) 21 [20, 21] (example_world 3 False)))
       = [TextFileRevert \<lparr>scheme = ''merge-result'', path = ''/a.txt''\<rparr>,
          TextFileRevert \<lparr>scheme = ''merge-result'', path = ''/b.txt''\<rparr>]
   \<and> TextFileRevert \<lparr>scheme = ''file'', path = ''/a.txt''\<rparr>
       \<notin> set (calls (snd (confirmClose (example_services 0 None) 21 [20, 21]
                           (example_world 3 False))))
   \<and> TextFileRevert \<lparr>scheme = ''file'', path = ''/b.txt''\<rparr>
       \<notin> set (calls (snd (confirmClose (example_services 0 None) 21 [20, 21]
                           (example_world 3 False))))"
proof -
  have b: "\<forall>m\<in>set [20, 21]. \<not> isDirty (example_world 3 False) m"
    by (simp add: example_isDirty)
  have c: "calls (snd (confirmClose (example_services 0 None) 21 [20, 21] (example_world 3 False)))
       = [TextFileRevert \<lparr>scheme = ''merge-result'', path = ''/a.txt''\<rparr>,
          TextFileRevert \<lparr>scheme = ''merge-result'', path = ''/b.txt''\<rparr>]"
    by (simp add: snd_confirmClose_clean [OF b] discard_all_calls assertFn_frame example_simps
          scratch_def)
  show ?thesis
    unfolding c using b by (simp add: example_simps)
qed

subsection \<open>Construction\<close>

lemma fst_resolve:
  "fst (resolve h u w) =
     (case createModelReference h u of
        Inl e \<Rightarrow> Inl e | Inr obj \<Rightarrow> Inr \<lparr>ref_uri = u, ref_object = obj\<rparr>)"
  by (simp add: resolve_def split: sum.splits)

lemma snd_resolve:
  "snd (resolve h u w) = w\<lparr>references := references w @ resolved_handles h [u]\<rparr>"
  by (simp add: resolve_def resolved_handles_def split: sum.splits)

lemma toInputData_parts:
  "isl (fst (toInputData h d st w)) = isl (createModelReference h (data_uri d))"
  "fst (snd (toInputData h d st w)) =
     (if isDisposed st then st
      else st\<lparr>toDispose := toDispose st @ map ReferenceD (resolved_handles h [data_uri d])\<rparr>)"
  "snd (snd (toInputData h d st w)) =
     w\<lparr>references := references w @ resolved_handles h [data_uri d]\<rparr>"
  by (simp_all add: toInputData_def resolve_def resolved_handles_def store_add_def
        split: sum.splits)

lemma fst_toInputData:
  "fst (toInputData h d st w) =
     (case createModelReference h (data_uri d) of
        Inl e \<Rightarrow> Inl e
      | Inr obj \<Rightarrow> Inr \<lparr>textModel = obj, title = data_title d,
                          description = data_description d, detail_of = data_detail d\<rparr>)"
  by (simp add: toInputData_def resolve_def split: sum.splits)

lemma first_rejection_None:
  "(first_rejection h us = None) = (\<forall>u\<in>set us. \<not> isl (createModelReference h u))"
  by (induction us) (auto split: sum.splits)

lemma resolutions_join:
  assumes "\<not> isDisposed st"
  obtains pb pr p1 p2 w1 w2 s1 w3 where
    "resolve h (args_base a) w = (pb, w1)"
    "resolve h (args_result a) w1 = (pr, w2)"
    "toInputData h (args_input1 a) st w2 = (p1, s1, w3)"
    "toInputData h (args_input2 a) s1 w3 =
       (p2,
        st\<lparr>toDispose := toDispose st @ map ReferenceD
             (resolved_handles h [data_uri (args_input1 a), data_uri (args_input2 a)])\<rparr>,
        w\<lparr>references := references w @ resolved_handles h (resolutions a)\<rparr>)"
    "\<forall>e. (Promise_all4 pb pr p1 p2 = Inl e) = (first_rejection h (resolutions a) = Some e)"
proof -
  obtain pb w1 where b: "resolve h (args_base a) w = (pb, w1)"
    by (cases "resolve h (args_base a) w")
  obtain pr w2 where r: "resolve h (args_result a) w1 = (pr, w2)"
    by (cases "resolve h (args_result a) w1")
  obtain p1 s1 w3 where i1: "toInputData h (args_input1 a) st w2 = (p1, s1, w3)"
    by (cases "toInputData h (args_input1 a) st w2")
  obtain p2 s2 w4 where i2: "toInputData h (args_input2 a) s1 w3 = (p2, s2, w4)"
    by (cases "toInputData h (args_input2 a) s1 w3")
  have pb: "pb = (case createModelReference h (args_base a) of
                    Inl e \<Rightarrow> Inl e
                  | Inr obj \<Rightarrow> Inr \<lparr>ref_uri = args_base a, ref_object = obj\<rparr>)"
    using fst_resolve [of h "args_base a" w] b by simp
  have pr: "pr = (case createModelReference h (args_result a) of
                    Inl e \<Rightarrow> Inl e
                  | Inr obj \<Rightarrow> Inr \<lparr>ref_uri = args_result a, ref_object = obj\<rparr>)"
    using fst_resolve [of h "args_result a" w1] r by simp
  have p1: "p1 = (case createModelReference h (data_uri (args_input1 a)) of
                    Inl e \<Rightarrow> Inl e
                  | Inr obj \<Rightarrow> Inr \<lparr>textModel = obj, title = data_title (args_input1 a),
                      description = data_description (args_input1 a),
                      detail_of = data_detail (args_input1 a)\<rparr>)"
    using fst_toInputData [of h "args_input1 a" st w2] i1 by simp
  have p2: "p2 = (case createModelReference h (data_uri (args_input2 a)) of
                    Inl e \<Rightarrow> Inl e
                  | Inr obj \<Rightarrow> Inr \<lparr>textModel = obj, title = data_title (args_input2 a),
                      description = data_description (args_input2 a),
                      detail_of = data_detail (args_input2 a)\<rparr>)"
    using fst_toInputData [of h "args_input2 a" s1 w3] i2 by simp
  have j: "\<forall>e. (Promise_all4 pb pr p1 p2 = Inl e) = (first_rejection h (resolutions a) = Some e)"
    by (simp add: Promise_all4_def pb pr p1 p2 resolutions_def split: sum.splits)
  have w1: "w1 = w\<lparr>references := references w @ resolved_handles h [args_base a]\<rparr>"
    using snd_resolve [of h "args_base a" w] b by simp
  have w2: "w2 = w1\<lparr>references := references w1 @ resolved_handles h [args_result a]\<rparr>"
    using snd_resolve [of h "args_result a" w1] r by simp
  have w3: "w3 = w2\<lparr>references := references w2 @ resolved_handles h [data_uri (args_input1 a)]\<rparr>"
    using toInputData_parts(3) [of h "args_input1 a" st w2] i1 by simp
  have w4: "w4 = w3\<lparr>references := references w3 @ resolved_handles h [data_uri (args_input2 a)]\<rparr>"
    using toInputData_parts(3) [of h "args_input2 a" s1 w3] i2 by simp
  have s1: "s1 = st\<lparr>toDispose := toDispose st @ map ReferenceD
                   (resolved_handles h [data_uri (args_input1 a)])\<rparr>"
    using toInputData_parts(2) [of h "args_input1 a" st w2] i1 assms by simp
  have s2: "s2 = st\<lparr>toDispose := toDispose st @ map ReferenceD
                   (resolved_handles h [data_uri (args_input1 a), data_uri (args_input2 a)])\<rparr>"
    using toInputData_parts(2) [of h "args_input2 a" s1 w3] i2 assms
    by (simp add: s1 resolved_handles_def)
  have w4': "w4 = w\<lparr>references := references w @ resolved_handles h (resolutions a)\<rparr>"
    by (simp add: w4 w3 w2 w1 resolutions_def resolved_handles_def)
  show ?thesis
    using that [OF b r i1 i2 [unfolded s2 w4'] j] .
qed

lemma TempFile_rejected:
  assumes "first_rejection h (resolutions a) = Some e"
  shows "TempFile_createInputModel h a w =
     (Inl e,
      \<lparr>toDispose = map ReferenceD
          (resolved_handles h [data_uri (args_input1 a), data_uri (args_input2 a)]),
        isDisposed = False\<rparr>,
      w\<lparr>references := references w @ resolved_handles h (resolutions a)\<rparr>)"
proof -
  have n: "\<not> isDisposed new_DisposableStore"
    by (simp add: new_DisposableStore_def)
  obtain pb pr p1 p2 w1 w2 s1 w3 where
    j: "resolve h (args_base a) w = (pb, w1)"
    "resolve h (args_result a) w1 = (pr, w2)"
    "toInputData h (args_input1 a) new_DisposableStore w2 = (p1, s1, w3)"
    "toInputData h (args_input2 a) s1 w3 =
       (p2,
        new_DisposableStore\<lparr>toDispose := toDispose new_DisposableStore @ map ReferenceD
             (resolved_handles h [data_uri (args_input1 a), data_uri (args_input2 a)])\<rparr>,
        w\<lparr>references := references w @ resolved_handles h (resolutions a)\<rparr>)"
    and i: "\<forall>e. (Promise_all4 pb pr p1 p2 = Inl e) = (first_rejection h (resolutions a) = Some e)"
    by (rule resolutions_join [OF n, where h = h and a = a and w = w])
  have e: "Promise_all4 pb pr p1 p2 = Inl e"
    using i assms by simp
  have "TempFile_createInputModel h a w =
     (Inl e,
      new_DisposableStore\<lparr>toDispose := toDispose new_DisposableStore @ map ReferenceD
         (resolved_handles h [data_uri (args_input1 a), data_uri (args_input2 a)])\<rparr>,
      w\<lparr>references := references w @ resolved_handles h (resolutions a)\<rparr>)"
    by (simp add: TempFile_createInputModel_def Let_def j e)
  then show ?thesis
    by (simp add: new_DisposableStore_def)
qed

lemma Workspace_rejected:
  assumes "first_rejection h (resolutions a) = Some e"
  shows "Workspace_createInputModel h a w =
     (Inl e,
      \<lparr>toDispose = ListenerD # map ReferenceD
          (resolved_handles h [data_uri (args_input1 a), data_uri (args_input2 a)]),
        isDisposed = False\<rparr>,
      w\<lparr>references := references w @ resolved_handles h (resolutions a)\<rparr>)"
proof -
  let ?st = "store_add ListenerD new_DisposableStore"
  have n: "\<not> isDisposed ?st"
    by (simp add: new_DisposableStore_def store_add_def)
  obtain pb pr p1 p2 w1 w2 s1 w3 where
    j: "resolve h (args_base a) w = (pb, w1)"
    "resolve h (args_result a) w1 = (pr, w2)"
    "toInputData h (args_input1 a) ?st w2 = (p1, s1, w3)"
    "toInputData h (args_input2 a) s1 w3 =
       (p2,
        ?st\<lparr>toDispose := toDispose ?st @ map ReferenceD
             (resolved_handles h [data_uri (args_input1 a), data_uri (args_input2 a)])\<rparr>,
        w\<lparr>references := references w @ resolved_handles h (resolutions a)\<rparr>)"
    and i: "\<forall>e. (Promise_all4 pb pr p1 p2 = Inl e) = (first_rejection h (resolutions a) = Some e)"
    by (rule resolutions_join [OF n, where h = h and a = a and w = w])
  have e: "Promise_all4 pb pr p1 p2 = Inl e"
    using i assms by simp
  have "Workspace_createInputModel h a w =
     (Inl e,
      ?st\<lparr>toDispose := toDispose ?st @ map ReferenceD
         (resolved_handles h [data_uri (args_input1 a), data_uri (args_input2 a)])\<rparr>,
      w\<lparr>references := references w @ resolved_handles h (resolutions a)\<rparr>)"
    by (simp add: Workspace_createInputModel_def Let_def j e)
  then show ?thesis
    by (simp add: new_DisposableStore_def store_add_def)
qed

lemma fold_handleDidCreate_no_match:
  "\<forall>m\<in>set ms. resource m \<noteq> r \<Longrightarrow> fold (handleDidCreate r) ms st = st"
  by (induction ms arbitrary: st) (auto simp: handleDidCreate_def)

lemma fold_onDidCreate_no_match:
  "\<forall>m\<in>set ms. resource m \<noteq> r \<Longrightarrow> fold (onDidCreate r) ms st = st"
  by (induction ms arbitrary: st) (auto simp: onDidCreate_def handleDidCreate_def)

lemma Workspace_no_record:
  assumes "\<forall>m\<in>set (files_models h @ files_onDidCreate h). resource m \<noteq> args_result a"
    and "first_rejection h (resolutions a) = None"
  shows "fst (Workspace_createInputModel h a w) = Inl BugIndicatingError"
proof -
  let ?st = "store_add ListenerD new_DisposableStore"
  have n: "\<not> isDisposed ?st"
    by (simp add: new_DisposableStore_def store_add_def)
  obtain pb pr p1 p2 w1 w2 s1 w3 where
    j: "resolve h (args_base a) w = (pb, w1)"
    "resolve h (args_result a) w1 = (pr, w2)"
    "toInputData h (args_input1 a) ?st w2 = (p1, s1, w3)"
    "toInputData h (args_input2 a) s1 w3 =
       (p2,
        ?st\<lparr>toDispose := toDispose ?st @ map ReferenceD
             (resolved_handles h [data_uri (args_input1 a), data_uri (args_input2 a)])\<rparr>,
        w\<lparr>references := references w @ resolved_handles h (resolutions a)\<rparr>)"
    and i: "\<forall>e. (Promise_all4 pb pr p1 p2 = Inl e) = (first_rejection h (resolutions a) = Some e)"
    by (rule resolutions_join [OF n, where h = h and a = a and w = w])
  have f: "fold (onDidCreate (args_result a)) (files_onDidCreate h)
             (fold (handleDidCreate (args_result a)) (files_models h) (True, None)) = (True, None)"
    using assms(1) by (simp add: fold_handleDidCreate_no_match fold_onDidCreate_no_match)
  have "\<not> isl (Promise_all4 pb pr p1 p2)"
    using i assms(2) by (cases "Promise_all4 pb pr p1 p2") auto
  then show ?thesis
    by (cases "Promise_all4 pb pr p1 p2")
       (auto simp: Workspace_createInputModel_def Let_def j f split: prod.splits)
qed

lemma TempFile_resolved:
  assumes "createModelReference h (args_base a) = Inr b"
    and "createModelReference h (args_result a) = Inr r"
    and "createModelReference h (data_uri (args_input1 a)) = Inr i1"
    and "createModelReference h (data_uri (args_input2 a)) = Inr i2"
  shows "\<exists>s st w'. TempFile_createInputModel h a w = (Inr s, st, w')
     \<and> s = new_TempFileMergeEditorInputModel w' (model s) st r (args_result a)
     \<and> resultTextModel (model s) = nextTextModel w
     \<and> model_uri (textModels w' (nextTextModel w))
         = (model_uri (textModels w r))\<lparr>scheme := ''merge-result''\<rparr>
     \<and> content (textModels w' (nextTextModel w)) = []
     \<and> toDispose st =
          [ReferenceD \<lparr>ref_uri = data_uri (args_input1 a), ref_object = i1\<rparr>,
           ReferenceD \<lparr>ref_uri = data_uri (args_input2 a), ref_object = i2\<rparr>,
           ReferenceD \<lparr>ref_uri = args_base a, ref_object = b\<rparr>,
           ReferenceD \<lparr>ref_uri = args_result a, ref_object = r\<rparr>,
           TextModelD (nextTextModel w), MergeEditorModelD]
     \<and> inputModels w' = inputModels w
     \<and> released w' = released w"
proof -
  have 1: "resolve h (args_base a) w = (Inr \<lparr>ref_uri = args_base a, ref_object = b\<rparr>,
      w\<lparr>references := references w @ [\<lparr>ref_uri = args_base a, ref_object = b\<rparr>]\<rparr>)"
    by (simp add: resolve_def assms)
  have 2: "resolve h (args_result a) w1 = (Inr \<lparr>ref_uri = args_result a, ref_object = r\<rparr>,
      w1\<lparr>references := references w1 @ [\<lparr>ref_uri = args_result a, ref_object = r\<rparr>]\<rparr>)" for w1
    by (simp add: resolve_def assms)
  have 3: "toInputData h (args_input1 a) st w2 =
     (Inr \<lparr>textModel = i1, title = data_title (args_input1 a),
           description = data_description (args_input1 a),
           detail_of = data_detail (args_input1 a)\<rparr>,
      store_add (ReferenceD \<lparr>ref_uri = data_uri (args_input1 a), ref_object = i1\<rparr>) st,
      w2\<lparr>references := references w2 @ [\<lparr>ref_uri = data_uri (args_input1 a), ref_object = i1\<rparr>]\<rparr>)"
    for st w2
    by (simp add: toInputData_def resolve_def assms)
  have 4: "toInputData h (args_input2 a) st w2 =
     (Inr \<lparr>textModel = i2, title = data_title (args_input2 a),
           description = data_description (args_input2 a),
           detail_of = data_detail (args_input2 a)\<rparr>,
      store_add (ReferenceD \<lparr>ref_uri = data_uri (args_input2 a), ref_object = i2\<rparr>) st,
      w2\<lparr>references := references w2 @ [\<lparr>ref_uri = data_uri (args_input2 a), ref_object = i2\<rparr>]\<rparr>)"
    for st w2
    by (simp add: toInputData_def resolve_def assms)
  show ?thesis
    by (simp add: TempFile_createInputModel_def Let_def 1 2 3 4 Promise_all4_def
          createModel_def store_add_def new_DisposableStore_def
          new_TempFileMergeEditorInputModel_def new_MergeEditorModel_def)
qed

lemma TempFile_scratch_private:
  assumes "TempFile_createInputModel h a w = (Inr s, st, w')"
    and "\<forall>k. result (inputModels w k) < nextTextModel w"
    and "\<forall>u obj. createModelReference h u = Inr obj \<longrightarrow> obj < nextTextModel w"
  shows "scratch_private (w'\<lparr>inputModels := (inputModels w')(this := s)\<rparr>) this"
proof -
  have "first_rejection h (resolutions a) = None"
    using TempFile_rejected [of h a _ w] assms(1)
    by (cases "first_rejection h (resolutions a)") auto
  then have n: "\<not> (\<exists>u\<in>set (resolutions a). isl (createModelReference h u))"
    by (simp add: first_rejection_None)
  obtain b where b: "createModelReference h (args_base a) = Inr b"
    using n by (cases "createModelReference h (args_base a)") (auto simp: resolutions_def)
  obtain r where r: "createModelReference h (args_result a) = Inr r"
    using n by (cases "createModelReference h (args_result a)") (auto simp: resolutions_def)
  obtain i1 where i1: "createModelReference h (data_uri (args_input1 a)) = Inr i1"
    using n by (cases "createModelReference h (data_uri (args_input1 a))")
      (auto simp: resolutions_def)
  obtain i2 where i2: "createModelReference h (data_uri (args_input2 a)) = Inr i2"
    using n by (cases "createModelReference h (data_uri (args_input2 a))")
      (auto simp: resolutions_def)
  have "s = new_TempFileMergeEditorInputModel w' (model s) st r (args_result a)
      \<and> resultTextModel (model s) = nextTextModel w \<and> inputModels w' = inputModels w"
    using TempFile_resolved [OF b r i1 i2, of w] assms(1) by auto
  moreover have "r < nextTextModel w"
    using assms(3) r by blast
  moreover have "result s = r"
    using calculation(1) by (metis TempFileMergeEditorInputModel.select_convs(3)
      new_TempFileMergeEditorInputModel_def)
  ultimately show ?thesis
    using assms(2) by (auto simp: scratch_private_def less_imp_neq dest: spec)
qed

lemma Workspace_resolved:
  assumes "createModelReference h (args_base a) = Inr b"
    and "createModelReference h (args_result a) = Inr r"
    and "createModelReference h (data_uri (args_input1 a)) = Inr i1"
    and "createModelReference h (data_uri (args_input2 a)) = Inr i2"
    and "snd (fold (onDidCreate (args_result a)) (files_onDidCreate h)
           (fold (handleDidCreate (args_result a)) (files_models h) (True, None))) = Some t"
  shows "\<exists>s. fst (Workspace_createInputModel h a w) = Inr s
     \<and> resultTextFileModel s = t
     \<and> resultTextModel (ws_model s) = r
     \<and> toDispose (disposableStore s) =
          [ListenerD,
           ReferenceD \<lparr>ref_uri = data_uri (args_input1 a), ref_object = i1\<rparr>,
           ReferenceD \<lparr>ref_uri = data_uri (args_input2 a), ref_object = i2\<rparr>,
           ReferenceD \<lparr>ref_uri = args_base a, ref_object = b\<rparr>,
           ReferenceD \<lparr>ref_uri = args_result a, ref_object = r\<rparr>,
           MergeEditorModelD]"
proof -
  have 1: "resolve h (args_base a) w = (Inr \<lparr>ref_uri = args_base a, ref_object = b\<rparr>,
      w\<lparr>references := references w @ [\<lparr>ref_uri = args_base a, ref_object = b\<rparr>]\<rparr>)"
    by (simp add: resolve_def assms)
  have 2: "resolve h (args_result a) w1 = (Inr \<lparr>ref_uri = args_result a, ref_object = r\<rparr>,
      w1\<lparr>references := references w1 @ [\<lparr>ref_uri = args_result a, ref_object = r\<rparr>]\<rparr>)" for w1
    by (simp add: resolve_def assms)
  have 3: "toInputData h (args_input1 a) st w2 =
     (Inr \<lparr>textModel = i1, title = data_title (args_input1 a),
           description = data_description (args_input1 a),
           detail_of = data_detail (args_input1 a)\<rparr>,
      store_add (ReferenceD \<lparr>ref_uri = data_uri (args_input1 a), ref_object = i1\<rparr>) st,
      w2\<lparr>references := references w2 @ [\<lparr>ref_uri = data_uri (args_input1 a), ref_object = i1\<rparr>]\<rparr>)"
    for st w2
    by (simp add: toInputData_def resolve_def assms)
  have 4: "toInputData h (args_input2 a) st w2 =
     (Inr \<lparr>textModel = i2, title = data_title (args_input2 a),
           description = data_description (args_input2 a),
           detail_of = data_detail (args_input2 a)\<rparr>,
      store_add (ReferenceD \<lparr>ref_uri = data_uri (args_input2 a), ref_object = i2\<rparr>) st,
      w2\<lparr>references := references w2 @ [\<lparr>ref_uri = data_uri (args_input2 a), ref_object = i2\<rparr>]\<rparr>)"
    for st w2
    by (simp add: toInputData_def resolve_def assms)
  show ?thesis
    by (simp add: Workspace_createInputModel_def Let_def 1 2 3 4 Promise_all4_def assms(5)
          store_add_def new_DisposableStore_def new_MergeEditorModel_def)
qed

text \<open>
  C3, as the code has it: when a document resolution rejects (\<open>e\<close> is the error of the
  first of the four that does), both factories reject with \<open>e\<close>, and nothing is
  released. The disposal store is not disposed, the released handles are those released
  before the call, and every handle that did resolve stays acquired. The store holds
  only the handles of the two inputs (and, in the workspace factory, the listener); the
  base and result handles are not even registered in it.
\<close>

theorem failed_construction_releases_no_handle:
  assumes "first_rejection h (resolutions a) = Some e"
  shows "(case TempFile_createInputModel h a w of
            (r, st, w') \<Rightarrow>
              r = Inl e \<and> \<not> isDisposed st
              \<and> toDispose st = map ReferenceD
                   (resolved_handles h [data_uri (args_input1 a), data_uri (args_input2 a)])
              \<and> released w' = released w
              \<and> references w' = references w @ resolved_handles h (resolutions a))
       \<and> (case Workspace_createInputModel h a w of
            (r, st, w') \<Rightarrow>
              r = Inl e \<and> \<not> isDisposed st
              \<and> toDispose st = ListenerD # map ReferenceD
                   (resolved_handles h [data_uri (args_input1 a), data_uri (args_input2 a)])
              \<and> released w' = released w
              \<and> references w' = references w @ resolved_handles h (resolutions a))"
  by (simp add: TempFile_rejected [OF assms] Workspace_rejected [OF assms])

text \<open>
  The workspace factory on a merge whose base does not resolve: it rejects, three
  handles stay acquired, none is released.
\<close>

theorem failed_construction_witness:
  "fst (Workspace_createInputModel (example_host [] []) (example_args ''missing'')
          (example_world 3 False)) = Inl (Rejected ''unable to resolve'')
   \<and> released (snd (snd (Workspace_createInputModel (example_host [] [])
                            (example_args ''missing'') (example_world 3 False)))) = []
   \<and> references (snd (snd (Workspace_createInputModel (example_host [] [])
                            (example_args ''missing'') (example_world 3 False)))) =
     [\<lparr>ref_uri = \<lparr>scheme = ''file'', path = ''/a.txt''\<rparr>, ref_object = 11\<rparr>,
      \<lparr>ref_uri = \<lparr>scheme = ''git'', path = ''/theirs''\<rparr>, ref_object = 15\<rparr>,
      \<lparr>ref_uri = \<lparr>scheme = ''git'', path = ''/yours''\<rparr>, ref_object = 16\<rparr>]"
proof -
  have w: "released (example_world 3 False) = []" "references (example_world 3 False) = []"
    by (simp_all add: example_world_def)
  show ?thesis
    using failed_construction_releases_no_handle
            [OF example_first_rejection(1), of "[]" "[]" "example_world 3 False"]
    by (simp add: example_resolved_handles w split: prod.splits)
qed

text \<open>
  C3 as stated fails: the base of the merge does not resolve, the temp-file factory
  rejects, and the three handles that did resolve (result and both inputs) are still
  acquired; not one of them has been released.
\<close>

theorem resolved_handles_leak_counterexample:
  "createModelReference (example_host [] []) (args_base (example_args ''missing''))
     = Inl (Rejected ''unable to resolve'')
   \<and> fst (TempFile_createInputModel (example_host [] []) (example_args ''missing'')
          (example_world 3 False)) = Inl (Rejected ''unable to resolve'')
   \<and> references (snd (snd (TempFile_createInputModel (example_host [] [])
                            (example_args ''missing'') (example_world 3 False)))) =
     [\<lparr>ref_uri = \<lparr>scheme = ''file'', path = ''/a.txt''\<rparr>, ref_object = 11\<rparr>,
      \<lparr>ref_uri = \<lparr>scheme = ''git'', path = ''/theirs''\<rparr>, ref_object = 15\<rparr>,
      \<lparr>ref_uri = \<lparr>scheme = ''git'', path = ''/yours''\<rparr>, ref_object = 16\<rparr>]
   \<and> released (snd (snd (TempFile_createInputModel (example_host [] [])
                            (example_args ''missing'') (example_world 3 False)))) = []"
proof -
  have w: "released (example_world 3 False) = []" "references (example_world 3 False) = []"
    by (simp_all add: example_world_def)
  have b: "createModelReference (example_host [] []) (args_base (example_args ''missing''))
     = Inl (Rejected ''unable to resolve'')"
    by (simp add: example_args_def example_host_fields)
  show ?thesis
    using b
    by (simp add: TempFile_rejected [OF example_first_rejection(1)] example_resolved_handles w)
qed

text \<open>
  C7, as the code has it: when no tracked file record for the result path is in the
  registry and none is announced while the construction is suspended, the workspace
  factory never returns a model. When the four document resolutions resolve, the error
  it throws is the bug-indicating (invariant-violation) error; when one of them rejects,
  that rejection surfaces instead, since the resolutions are awaited before the record
  is looked at.
\<close>

theorem workspace_without_tracked_record_throws:
  assumes "\<forall>m\<in>set (files_models h @ files_onDidCreate h). resource m \<noteq> args_result a"
  shows "isl (fst (Workspace_createInputModel h a w))
    \<and> (first_rejection h (resolutions a) = None
        \<longrightarrow> fst (Workspace_createInputModel h a w) = Inl BugIndicatingError)
    \<and> (\<forall>e. first_rejection h (resolutions a) = Some e
        \<longrightarrow> fst (Workspace_createInputModel h a w) = Inl e)"
proof -
  have n: "fst (Workspace_createInputModel h a w) = Inl BugIndicatingError"
    if "first_rejection h (resolutions a) = None"
    using Workspace_no_record [OF assms that] .
  have r: "fst (Workspace_createInputModel h a w) = Inl e"
    if "first_rejection h (resolutions a) = Some e" for e
    by (simp add: Workspace_rejected [OF that])
  show ?thesis
    using n r by (cases "first_rejection h (resolutions a)") simp_all
qed

text \<open>
  The registry tracks \<^verbatim>\<open>/b.txt\<close> only and nothing is announced. The merge of
  \<^verbatim>\<open>/a.txt\<close> whose four documents resolve ends in the bug-indicating error; the
  one whose base does not resolve ends in the rejection of the base.
\<close>

theorem workspace_without_tracked_record_witness:
  "fst (Workspace_createInputModel
          (example_host [\<lparr>resource = \<lparr>scheme = ''file'', path = ''/b.txt''\<rparr>, file_dirty = False\<rparr>] [])
          (example_args ''file'') (example_world 3 False))
     = Inl BugIndicatingError
   \<and> fst (Workspace_createInputModel
          (example_host [\<lparr>resource = \<lparr>scheme = ''file'', path = ''/b.txt''\<rparr>, file_dirty = False\<rparr>] [])
          (example_args ''missing'') (example_world 3 False))
     = Inl (Rejected ''unable to resolve'')"
proof -
  let ?h = "example_host [\<lparr>resource = \<lparr>scheme = ''file'', path = ''/b.txt''\<rparr>, file_dirty = False\<rparr>] []"
  have n: "\<forall>m\<in>set (files_models ?h @ files_onDidCreate ?h).
             resource m \<noteq> args_result (example_args s)" for s
    by (simp add: example_host_fields example_resolutions)
  show ?thesis
    using workspace_without_tracked_record_throws [OF n, of "''file''" "example_world 3 False"]
      workspace_without_tracked_record_throws [OF n, of "''missing''" "example_world 3 False"]
    by (simp add: example_first_rejection)
qed

text \<open>
  C7 as stated fails when a resolution rejects: no file is tracked, none is announced,
  the base of the merge does not resolve, and the workspace factory rejects with the
  resolution's error, not with the bug-indicating error.
\<close>

theorem workspace_resolution_error_first_counterexample:
  "files_models (example_host [] []) = [] \<and> files_onDidCreate (example_host [] []) = []
   \<and> createModelReference (example_host [] []) (args_base (example_args ''missing''))
       = Inl (Rejected ''unable to resolve'')
   \<and> fst (Workspace_createInputModel (example_host [] []) (example_args ''missing'')
            (example_world 3 False))
       = Inl (Rejected ''unable to resolve'')
   \<and> fst (Workspace_createInputModel (example_host [] []) (example_args ''missing'')
            (example_world 3 False))
       \<noteq> Inl BugIndicatingError"
proof -
  have b: "createModelReference (example_host [] []) (args_base (example_args ''missing''))
     = Inl (Rejected ''unable to resolve'')"
    by (simp add: example_args_def example_host_fields)
  show ?thesis
    using b
    by (simp add: Workspace_rejected [OF example_first_rejection(1)] example_host_fields)
qed

subsection \<open>The dirty flag along a run\<close>

lemma exec_frame:
  "resultTextModel (model (inputModels (exec sv p w) k)) = resultTextModel (model (inputModels w k))"
  "result (inputModels (exec sv p w) k) = result (inputModels w k)"
proof -
  have "resultTextModel (model (inputModels (exec sv p w) k))
          = resultTextModel (model (inputModels w k))
      \<and> result (inputModels (exec sv p w) k) = result (inputModels w k)"
  proof (cases p)
    case (ContentChange r v a)
    then show ?thesis by simp
  next
    case (MergeChange m c v)
    then show ?thesis by (simp add: updateInputModel_def)
  next
    case (CallAccept m)
    then show ?thesis by (simp add: accept_frame)
  next
    case (CallSave m)
    then show ?thesis
      by (simp add: save_cases accept_frame recordCall_frame)
  next
    case (CallRevert m)
    then show ?thesis by (simp add: revert_def)
  next
    case (CallConfirmClose m ms)
    then show ?thesis
      by (simp add: confirmClose_cases accept_all_frame discard_all_frame recordCall_frame
            assertFn_frame)
  qed
  then show
    "resultTextModel (model (inputModels (exec sv p w) k)) = resultTextModel (model (inputModels w k))"
    "result (inputModels (exec sv p w) k) = result (inputModels w k)"
    by simp_all
qed

lemma exec_private:
  "scratch_private (exec sv p w) this = scratch_private w this"
proof (cases p)
  case (ContentChange r v a)
  then show ?thesis by (simp add: scratch_private_def)
next
  case (MergeChange m c v)
  then show ?thesis by (auto simp: scratch_private_def updateInputModel_def)
next
  case (CallAccept m)
  then show ?thesis by (simp add: accept_private)
next
  case (CallSave m)
  then show ?thesis
    by (simp add: save_cases accept_private recordCall_frame)
next
  case (CallRevert m)
  then show ?thesis by (simp add: revert_def)
next
  case (CallConfirmClose m ms)
  then show ?thesis
    by (simp add: confirmClose_cases accept_all_private discard_all_private recordCall_frame
          assertFn_frame)
qed

lemma exec_scratch:
  assumes "scratch_private w this"
  shows "scratch (exec sv p w) this =
     (case p of
        ContentChange r v a \<Rightarrow>
          if r = resultTextModel (model (inputModels w this))
          then (scratch w this)\<lparr>content := v, versionId := versionId (scratch w this) + 1,
                                    alternativeVersionId := a\<rparr>
          else scratch w this
      | _ \<Rightarrow> scratch w this)"
proof (cases p)
  case (ContentChange r v a)
  then show ?thesis by (simp add: scratch_def)
next
  case (MergeChange m c v)
  then show ?thesis by (simp add: scratch_def updateInputModel_def)
next
  case (CallAccept m)
  then show ?thesis by (simp add: accept_scratch [OF assms])
next
  case (CallSave m)
  have "scratch_private (recordCall (DialogShow save_dialog) w) this"
    using assms by (simp add: recordCall_frame)
  then have "scratch (snd (accept sv m (recordCall (DialogShow save_dialog) w))) this
      = scratch w this"
    by (simp add: accept_scratch recordCall_frame)
  then show ?thesis
    by (simp add: CallSave save_cases recordCall_frame)
next
  case (CallRevert m)
  then show ?thesis by (simp add: revert_def)
next
  case (CallConfirmClose m ms)
  have "scratch_private
          (recordCall (DialogShow (confirmClose_dialog w ms)) (assertFn (m \<in> set ms) w)) this"
    using assms by (simp add: recordCall_frame assertFn_frame)
  then show ?thesis
    using assms
    by (simp add: CallConfirmClose confirmClose_cases accept_all_scratch discard_all_scratch
          recordCall_frame assertFn_frame)
qed

lemma exec_saved:
  assumes "scratch_private w this"
  shows "savedAltVersionId (inputModels (exec sv p w) this) =
     (if reaches_save_point sv w this p
      then alternativeVersionId (scratch (exec sv p w) this)
      else savedAltVersionId (inputModels w this))"
proof (cases p)
  case (ContentChange r v a)
  then show ?thesis by simp
next
  case (MergeChange m c v)
  then show ?thesis by (simp add: updateInputModel_def)
next
  case (CallAccept m)
  then show ?thesis by (simp add: accept_saved)
next
  case (CallSave m)
  then show ?thesis
    by (simp add: save_cases accept_saved recordCall_frame)
next
  case (CallRevert m)
  then show ?thesis by (simp add: revert_def)
next
  case (CallConfirmClose m ms)
  let ?w1 = "recordCall (DialogShow (confirmClose_dialog w ms)) (assertFn (m \<in> set ms) w)"
  have p1: "scratch_private ?w1 this"
    using assms by (simp add: recordCall_frame assertFn_frame)
  show ?thesis
    by (simp add: CallConfirmClose confirmClose_cases list_ex_iff Let_def
          accept_all_saved [OF p1] accept_all_scratch [OF p1]
          discard_all_saved discard_all_scratch recordCall_frame assertFn_frame)
qed

lemma run_saved:
  "scratch_private w this \<Longrightarrow>
   savedAltVersionId (inputModels (run ps w) this) =
     marker_at_last_save_point this ps w (savedAltVersionId (inputModels w this))"
proof (induction ps arbitrary: w)
  case Nil
  show ?case by simp
next
  case (Cons sp ps)
  obtain sv p where sp: "sp = (sv, p)"
    by (cases sp)
  have "scratch_private (exec sv p w) this"
    using Cons.prems by (simp add: exec_private)
  then show ?case
    by (simp add: sp Cons.IH exec_saved [OF Cons.prems])
qed

text \<open>
  C4: take a session as its constructor leaves it, whose scratch document is its own.
  After any run of content changes, merge-state changes and calls of \<^verbatim>\<open>accept\<close>,
  \<^verbatim>\<open>save\<close>, \<^verbatim>\<open>revert\<close> and \<^verbatim>\<open>confirmClose\<close> (on this or on any other
  session, with any set of sessions, whatever the services answer), \<^verbatim>\<open>isDirty\<close>
  holds exactly when the scratch document's current alternative version id differs from
  the marker recorded at the last save point; the run starts from the marker of the
  construction. Every content change of the scratch document is a step of the run, so
  the flag follows it at once.
\<close>

theorem isDirty_iff_marker_differs_from_last_save_point:
  assumes "inputModels w this = new_TempFileMergeEditorInputModel w m st r u"
    and "scratch_private w this"
  shows "isDirty (run ps w) this
     = (alternativeVersionId (scratch (run ps w) this)
          \<noteq> marker_at_last_save_point this ps w (alternativeVersionId (scratch w this)))"
proof -
  have "savedAltVersionId (inputModels w this) = alternativeVersionId (scratch w this)"
    by (simp add: assms(1) scratch_def new_TempFileMergeEditorInputModel_def)
  then show ?thesis
    by (simp add: isDirty_def run_saved [OF assms(2)])
qed

text \<open>
  Session 20 of the example world: clean as constructed, dirty after an edit, clean
  after \<^verbatim>\<open>accept\<close>, dirty after another edit, clean again when an undo brings back
  the accepted marker. And: dirty after an edit, clean after it is closed through
  session 21 (which is not in the set closed) with the answer Don't Save.
\<close>

theorem isDirty_witness:
  "\<not> isDirty (example_world 3 False) 20
   \<and> isDirty (run [(example_services 0 None, ContentChange 10 ''edited'' 7)]
               (example_world 3 False)) 20
   \<and> \<not> isDirty (run [(example_services 0 None, ContentChange 10 ''edited'' 7),
                      (example_services 0 None, CallAccept 20)]
                 (example_world 3 False)) 20
   \<and> isDirty (run [(example_services 0 None, ContentChange 10 ''edited'' 7),
                   (example_services 0 None, CallAccept 20),
                   (example_services 0 None, ContentChange 10 ''more'' 8)]
               (example_world 3 False)) 20
   \<and> \<not> isDirty (run [(example_services 0 None, ContentChange 10 ''edited'' 7),
                      (example_services 0 None, CallAccept 20),
                      (example_services 0 None, ContentChange 10 ''more'' 8),
                      (example_services 0 None, ContentChange 10 ''edited'' 7)]
                 (example_world 3 False)) 20
   \<and> isDirty (run [(example_services 1 None, ContentChange 10 ''edited'' 5)]
               (example_world 3 False)) 20
   \<and> \<not> isDirty (run [(example_services 1 None, ContentChange 10 ''edited'' 5),
                      (example_services 1 None, CallConfirmClose 21 [20])]
                 (example_world 3 False)) 20"
proof -
  note inv = isDirty_iff_marker_differs_from_last_save_point [OF example_constructed example_private]
  have s: "alternativeVersionId (scratch (example_world 3 False) 20) = 3"
    by (simp add: scratch_def example_world_def example_session_def example_merge_def
          example_document_def)
  have r: "resultTextModel (model (inputModels (example_world 3 False) 20)) = 10"
    by (simp add: example_world_def example_session_def example_merge_def)
  show ?thesis
    unfolding inv
    by (simp add: exec_scratch exec_private exec_frame example_private example_isDirty s r
          example_services_fields Let_def del: exec.simps)
qed

end
